theory Spec2Isabelle
  imports Complex_Main "HOL-Library.Log_Nat"
begin

section \<open>Numbers\<close>

text \<open>
  A JavaScript number is an IEEE 754 binary64 value: \<^verbatim>\<open>NaN\<close>, one of the two infinities,
  or a finite value, kept here as the rational it denotes. The two zeros are one value:
  no operation of the code modelled below tells them apart.
\<close>

datatype number = NaN | PosInf | NegInf | Fin rat

definition pow2 :: "int \<Rightarrow> rat" where
  "pow2 e = (if 0 \<le> e then 2 ^ nat e else 1 / 2 ^ nat (- e))"

text \<open>The exponent of a positive rational: the \<open>e\<close> with \<open>2 ^ e \<le> a < 2 ^ (e + 1)\<close>.\<close>

definition floor_log2 :: "rat \<Rightarrow> int" where
  "floor_log2 a = (if 1 \<le> a then bitlen \<lfloor>a\<rfloor> - 1 else - bitlen (\<lceil>1 / a\<rceil> - 1))"

definition round_half_even :: "rat \<Rightarrow> int" where
  "round_half_even m =
     (let f = \<lfloor>m\<rfloor>; r = m - of_int f
      in if r < 1 / 2 then f else if 1 / 2 < r then f + 1 else if even f then f else f + 1)"

text \<open>
  \<open>fl x\<close> is the binary64 value nearest to \<open>x\<close>, ties going to the even significand:
  53 significant bits, the exponent of the last bit not below -1074 (gradual underflow),
  and infinity when the rounded value reaches \<open>2 ^ 1024\<close>. Every arithmetic operator
  of JavaScript is the exact operation followed by this rounding, and a decimal literal
  such as \<^verbatim>\<open>0.01\<close> is \<open>fl (1 / 100)\<close>.
\<close>

definition fl :: "rat \<Rightarrow> number" where
  "fl x =
     (if x = 0 then Fin 0
      else
        let a = \<bar>x\<bar>;
            e = floor_log2 a;
            q = (if e < - 1022 then - 1074 else e - 52);
            n = round_half_even (a / pow2 q)
        in if 1024 < q + bitlen n then (if 0 < x then PosInf else NegInf)
           else Fin (sgn x * of_int n * pow2 q))"

fun js_mul :: "number \<Rightarrow> number \<Rightarrow> number" where
  "js_mul (Fin a) (Fin b) = fl (a * b)"
| "js_mul NaN y = NaN"
| "js_mul x NaN = NaN"
| "js_mul (Fin a) PosInf = (if a = 0 then NaN else if 0 < a then PosInf else NegInf)"
| "js_mul (Fin a) NegInf = (if a = 0 then NaN else if 0 < a then NegInf else PosInf)"
| "js_mul PosInf (Fin b) = (if b = 0 then NaN else if 0 < b then PosInf else NegInf)"
| "js_mul NegInf (Fin b) = (if b = 0 then NaN else if 0 < b then NegInf else PosInf)"
| "js_mul PosInf PosInf = PosInf"
| "js_mul PosInf NegInf = NegInf"
| "js_mul NegInf PosInf = NegInf"
| "js_mul NegInf NegInf = PosInf"

text \<open>
  The code divides by the literal 100 only; a zero divisor is taken as the positive zero.
\<close>

fun js_div :: "number \<Rightarrow> number \<Rightarrow> number" where
  "js_div (Fin a) (Fin b) =
     (if b = 0 then (if a = 0 then NaN else if 0 < a then PosInf else NegInf)
      else fl (a / b))"
| "js_div NaN y = NaN"
| "js_div x NaN = NaN"
| "js_div (Fin a) PosInf = Fin 0"
| "js_div (Fin a) NegInf = Fin 0"
| "js_div PosInf (Fin b) = (if 0 \<le> b then PosInf else NegInf)"
| "js_div NegInf (Fin b) = (if 0 \<le> b then NegInf else PosInf)"
| "js_div PosInf PosInf = NaN"
| "js_div PosInf NegInf = NaN"
| "js_div NegInf PosInf = NaN"
| "js_div NegInf NegInf = NaN"

fun js_add :: "number \<Rightarrow> number \<Rightarrow> number" where
  "js_add (Fin a) (Fin b) = fl (a + b)"
| "js_add NaN y = NaN"
| "js_add x NaN = NaN"
| "js_add PosInf NegInf = NaN"
| "js_add NegInf PosInf = NaN"
| "js_add PosInf y = PosInf"
| "js_add x PosInf = PosInf"
| "js_add NegInf y = NegInf"
| "js_add x NegInf = NegInf"

fun js_neg :: "number \<Rightarrow> number" where
  "js_neg (Fin a) = Fin (- a)"
| "js_neg PosInf = NegInf"
| "js_neg NegInf = PosInf"
| "js_neg NaN = NaN"

definition js_sub :: "number \<Rightarrow> number \<Rightarrow> number" where
  "js_sub x y = js_add x (js_neg y)"

fun Math_abs :: "number \<Rightarrow> number" where
  "Math_abs (Fin a) = Fin \<bar>a\<bar>"
| "Math_abs NegInf = PosInf"
| "Math_abs PosInf = PosInf"
| "Math_abs NaN = NaN"

text \<open>
  \<^verbatim>\<open>Math.round(x)\<close> is the integer nearest to \<open>x\<close>, ties going towards plus infinity;
  on a binary64 value the result is again one, so no rounding follows.
\<close>

fun Math_round :: "number \<Rightarrow> number" where
  "Math_round (Fin a) = Fin (of_int \<lfloor>a + 1 / 2\<rfloor>)"
| "Math_round x = x"

text \<open>
  The comparisons \<^verbatim>\<open><\<close>, \<^verbatim>\<open><=\<close>, \<^verbatim>\<open>>\<close> and \<^verbatim>\<open>===\<close> on numbers (every comparison with
  \<^verbatim>\<open>NaN\<close> is false), and the truthiness that \<^verbatim>\<open>!x\<close> and \<^verbatim>\<open>x || y\<close> test.
\<close>

fun js_lt :: "number \<Rightarrow> number \<Rightarrow> bool" where
  "js_lt (Fin a) (Fin b) = (a < b)"
| "js_lt NaN y = False"
| "js_lt x NaN = False"
| "js_lt x NegInf = False"
| "js_lt PosInf y = False"
| "js_lt NegInf y = True"
| "js_lt x PosInf = True"

definition js_le :: "number \<Rightarrow> number \<Rightarrow> bool" where
  "js_le x y = (x \<noteq> NaN \<and> y \<noteq> NaN \<and> \<not> js_lt y x)"

definition js_gt :: "number \<Rightarrow> number \<Rightarrow> bool" where
  "js_gt x y = js_lt y x"

definition strict_eq :: "number \<Rightarrow> number \<Rightarrow> bool" where
  "strict_eq x y = (x \<noteq> NaN \<and> x = y)"

definition truthy :: "number \<Rightarrow> bool" where
  "truthy x = (x \<noteq> NaN \<and> x \<noteq> Fin 0)"

text \<open>
  A numeric field of a request body is a JSON number or a string: the \<^verbatim>\<open>isFloat\<close>
  validators of the routes accept both. \<open>JsonString n\<close> is a string that \<^verbatim>\<open>ToNumber\<close>
  converts to \<open>n\<close>; arithmetic and the relational operators convert it, \<^verbatim>\<open>===\<close> does not.
\<close>

datatype json_num = JsonNumber number | JsonString number

fun ToNumber :: "json_num \<Rightarrow> number" where
  "ToNumber (JsonNumber n) = n"
| "ToNumber (JsonString n) = n"

fun json_strict_eq :: "json_num \<Rightarrow> number \<Rightarrow> bool" where
  "json_strict_eq (JsonNumber n) y = strict_eq n y"
| "json_strict_eq (JsonString n) y = False"

section \<open>The calculation rule\<close>

text \<open>
  The rounding the specification speaks of: round half away from zero, to two decimal
  places, on exact decimal values. It is written from the specification's words, to be
  compared with what \<open>calculateCommission\<close> computes.
\<close>

definition round2 :: "rat \<Rightarrow> rat" where
  "round2 x = sgn x * of_int \<lfloor>\<bar>x\<bar> * 100 + 1 / 2\<rfloor> / 100"

record calculations =
  commissionAmount :: number
  gstAmount :: number
  netIncome :: number
  returnAmount :: number

datatype error =
    InvalidInput
  | CalculationValidationFailed
  | GSTValidationFailed "string list"
  | ValidationError
  | DuplicateKey
  | FilingLocked
  | NotFound
  | AlreadyLocked
  | MonthYearRequired

text \<open>
  \<^verbatim>\<open>calculateCommission(totalReceived, commissionPercent = 1, gstRate = 18)\<close> of
  \<^verbatim>\<open>backend/utils/gstValidation.js\<close> (lines 166 to 197). Each \<^verbatim>\<open>throw new Error(...)\<close> is the value
  \<open>Inl InvalidInput\<close>. The four intermediate values are computed unrounded and each is
  rounded in the returned object only.
\<close>

definition calculateCommission :: "number \<Rightarrow> number \<Rightarrow> number \<Rightarrow> error + calculations" where
  "calculateCommission totalReceived commissionPercent gstRate =
     (if js_le totalReceived (Fin 0) then Inl InvalidInput
      else if js_lt commissionPercent (Fin 0) \<or> js_gt commissionPercent (Fin 100) then Inl InvalidInput
      else if js_lt gstRate (Fin 0) \<or> js_gt gstRate (Fin 100) then Inl InvalidInput
      else
        let commissionAmount = js_div (js_mul totalReceived commissionPercent) (Fin 100);
            gstAmount = js_div (js_mul commissionAmount gstRate) (Fin 100);
            netIncome = js_sub commissionAmount gstAmount;
            returnAmount = js_sub totalReceived commissionAmount
        in Inr \<lparr> commissionAmount = js_div (Math_round (js_mul commissionAmount (Fin 100))) (Fin 100),
                 gstAmount = js_div (Math_round (js_mul gstAmount (Fin 100))) (Fin 100),
                 netIncome = js_div (Math_round (js_mul netIncome (Fin 100))) (Fin 100),
                 returnAmount = js_div (Math_round (js_mul returnAmount (Fin 100))) (Fin 100) \<rparr>)"

text \<open>
  \<^verbatim>\<open>validateCalculations(totalReceived, calculations)\<close> (lines 205 to 215): both checks
  are strict comparisons with the literal \<^verbatim>\<open>0.01\<close>.
\<close>

definition validateCalculations :: "number \<Rightarrow> calculations \<Rightarrow> bool" where
  "validateCalculations totalReceived c =
     (let sumCheck = js_lt (Math_abs (js_sub (js_add (commissionAmount c) (returnAmount c)) totalReceived))
                       (fl (1 / 100));
          netCheck = js_lt (Math_abs (js_sub (js_sub (commissionAmount c) (gstAmount c)) (netIncome c)))
                       (fl (1 / 100))
      in sumCheck \<and> netCheck)"

text \<open>
  \<^verbatim>\<open>validateTransactionForGST({commissionAmount, gstAmount, totalReceived})\<close> of
  \<^verbatim>\<open>backend/utils/gstValidation.js\<close> (lines 119 to 141); the result is the list of error
  strings, \<^verbatim>\<open>isValid\<close> being its emptiness. The total is the value of the request body
  as it came, compared with \<^verbatim>\<open>===\<close>.
\<close>

definition validateTransactionForGST :: "number \<Rightarrow> number \<Rightarrow> json_num \<Rightarrow> string list" where
  "validateTransactionForGST commission gst totalRecv =
     (if \<not> truthy commission \<or> js_le commission (Fin 0)
        then [''Commission amount must be positive for GST reporting''] else [])
     @ (if \<not> truthy gst \<or> js_le gst (Fin 0)
        then [''GST amount must be positive for GST reporting''] else [])
     @ (if json_strict_eq totalRecv commission
        then [''Total received cannot equal commission amount - verify calculation''] else [])"

section \<open>Strings\<close>

text \<open>
  \<^verbatim>\<open>String(n)\<close> for an integral number is its decimal numeral, with a leading minus sign
  when negative.
\<close>

definition digit_char :: "nat \<Rightarrow> char" where
  "digit_char d = ''0123456789'' ! (d mod 10)"

fun String_nat :: "nat \<Rightarrow> string" where
  "String_nat n = (if n < 10 then [digit_char n] else String_nat (n div 10) @ [digit_char (n mod 10)])"

declare String_nat.simps [simp del]

definition String_int :: "int \<Rightarrow> string" where
  "String_int i = (if i < 0 then CHR ''-'' # String_nat (nat (- i)) else String_nat (nat i))"

text \<open>\<^verbatim>\<open>s.padStart(n, c)\<close> for a one-character filler, and \<^verbatim>\<open>s.slice(-2)\<close>.\<close>

definition padStart :: "nat \<Rightarrow> char \<Rightarrow> string \<Rightarrow> string" where
  "padStart n c s = replicate (n - length s) c @ s"

definition slice_last2 :: "string \<Rightarrow> string" where
  "slice_last2 s = drop (length s - 2) s"

definition is_digit :: "char \<Rightarrow> bool" where
  "is_digit c = (c \<in> set ''0123456789'')"

text \<open>
  The two regular expressions of the schemas, \<^verbatim>\<open>/^FY\d{2}$/\<close> and
  \<^verbatim>\<open>/^INV-FY\d{2}-\d{5}$/\<close>, as matchers on the whole string.
\<close>

definition match_FY :: "string \<Rightarrow> bool" where
  "match_FY s = (length s = 4 \<and> take 2 s = ''FY'' \<and> list_all is_digit (drop 2 s))"

definition match_INV :: "string \<Rightarrow> bool" where
  "match_INV s =
     (length s = 14 \<and> take 6 s = ''INV-FY'' \<and> list_all is_digit (take 2 (drop 6 s))
      \<and> take 1 (drop 8 s) = ''-'' \<and> list_all is_digit (drop 9 s))"

text \<open>\<^verbatim>\<open>String.prototype.trim\<close> on single-byte text.\<close>

definition is_space :: "char \<Rightarrow> bool" where
  "is_space c = (c \<in> set [CHR 0x09, CHR 0x0A, CHR 0x0B, CHR 0x0C, CHR 0x0D, CHR 0x20, CHR 0xA0])"

definition trim :: "string \<Rightarrow> string" where
  "trim s = rev (dropWhile is_space (rev (dropWhile is_space s)))"

section \<open>Dates and the financial year\<close>

text \<open>
  A \<^verbatim>\<open>Date\<close> is modelled by its local calendar fields as the getters return them:
  \<^verbatim>\<open>getFullYear()\<close>, \<^verbatim>\<open>getMonth()\<close> (0 to 11) and \<^verbatim>\<open>getDate()\<close>.
\<close>

record jsdate =
  getFullYear :: int
  getMonth :: int
  getDate :: int

text \<open>
  \<^verbatim>\<open>new Date(year, monthIndex, 1)\<close>: a year from 0 to 99 means 1900 + year, and a month
  index outside 0..11 carries into the year.
\<close>

definition newDate :: "int \<Rightarrow> int \<Rightarrow> jsdate" where
  "newDate y monthIndex =
     (let yy = (if 0 \<le> y \<and> y \<le> 99 then 1900 + y else y)
      in \<lparr> getFullYear = yy + monthIndex div 12, getMonth = monthIndex mod 12, getDate = 1 \<rparr>)"

text \<open>\<^verbatim>\<open>InvoiceNumber.getFinancialYear(date)\<close> of \<^verbatim>\<open>models/InvoiceNumber.model.js\<close>.\<close>

definition getFinancialYear :: "jsdate \<Rightarrow> string" where
  "getFinancialYear date =
     (let year = getFullYear date;
          month = getMonth date + 1;
          financialYear = (if month \<ge> 4 then year else year - 1);
          fyShort = slice_last2 (String_int financialYear)
      in ''FY'' @ fyShort)"

text \<open>
  The two-digit year of the specification, \<open>FY{YY}\<close>: written from the specification's
  words, to be compared with \<open>getFinancialYear\<close>.
\<close>

definition two_digits :: "int \<Rightarrow> string" where
  "two_digits y = [digit_char (nat (y mod 100) div 10), digit_char (nat (y mod 100) mod 10)]"

definition fiscalYear :: "jsdate \<Rightarrow> string" where
  "fiscalYear date =
     ''FY'' @ two_digits (if getMonth date + 1 \<ge> 4 then getFullYear date else getFullYear date - 1)"

section \<open>Invoice number series\<close>

text \<open>
  The \<^verbatim>\<open>InvoiceNumber\<close> collection is a list of documents, one per financial year.
  \<open>update_first\<close> is \<^verbatim>\<open>findOneAndUpdate(filter, update, {new: true})\<close>: the first
  document satisfying the filter is updated and returned, or nothing is found.
\<close>

record invoice_series =
  inv_financialYear :: string
  lastSequenceNumber :: nat
  inv_prefix :: string

fun update_first :: "('a \<Rightarrow> bool) \<Rightarrow> ('a \<Rightarrow> 'a) \<Rightarrow> 'a list \<Rightarrow> ('a \<times> 'a list) option" where
  "update_first P f [] = None"
| "update_first P f (x # xs) =
     (if P x then Some (f x, f x # xs)
      else (case update_first P f xs of
              None \<Rightarrow> None
            | Some (r, xs') \<Rightarrow> Some (r, x # xs')))"

text \<open>
  \<^verbatim>\<open>getNextInvoiceNumber(financialYear)\<close>: the increment with \<^verbatim>\<open>upsert: true\<close>. When no
  document exists, one is inserted with the filter's financial year, the incremented
  counter (1) and the schema default of \<^verbatim>\<open>prefix\<close>.
\<close>

definition getNextInvoiceNumber :: "string \<Rightarrow> invoice_series list \<Rightarrow> string \<times> invoice_series list" where
  "getNextInvoiceNumber fy series =
     (let (invoiceSeries, series') =
            (case update_first (\<lambda>s. inv_financialYear s = fy)
                    (\<lambda>s. s\<lparr>lastSequenceNumber := lastSequenceNumber s + 1\<rparr>) series of
               Some r \<Rightarrow> r
             | None \<Rightarrow>
                 (let doc = \<lparr> inv_financialYear = fy, lastSequenceNumber = 1, inv_prefix = ''INV'' \<rparr>
                  in (doc, series @ [doc])));
          sequence = padStart 5 (CHR ''0'') (String_nat (lastSequenceNumber invoiceSeries))
      in (inv_prefix invoiceSeries @ ''-'' @ fy @ ''-'' @ sequence, series'))"

text \<open>
  \<^verbatim>\<open>generateInvoiceNumber(date)\<close> of \<^verbatim>\<open>utils/invoiceNumber.js\<close>
  (\<^verbatim>\<open>src/unnamed/part_004\<close>).
\<close>

definition generateInvoiceNumber :: "jsdate \<Rightarrow> invoice_series list \<Rightarrow> string \<times> invoice_series list" where
  "generateInvoiceNumber d series = getNextInvoiceNumber (getFinancialYear d) series"

text \<open>Sequential allocation: \<open>n\<close> calls one after the other, the numbers in order of issue.\<close>

fun allocate :: "nat \<Rightarrow> string \<Rightarrow> invoice_series list \<Rightarrow> string list \<times> invoice_series list" where
  "allocate 0 fy series = ([], series)"
| "allocate (Suc n) fy series =
     (let (inv, series') = getNextInvoiceNumber fy series;
          (invs, series'') = allocate n fy series'
      in (inv # invs, series''))"

section \<open>Transactions\<close>

text \<open>
  A transaction document carries the four calculated fields of \<open>calculations\<close> (the
  controller spreads them into the document). \<^verbatim>\<open>invoiceNumber\<close> and
  \<^verbatim>\<open>financialYear\<close> are not required by the schema.
\<close>

record transaction = calculations +
  tid :: nat
  date :: jsdate
  totalReceived :: number
  commissionPercent :: number
  paymentMode :: string
  createdBy :: nat
  remarks :: string
  invoiceNumber :: "string option"
  financialYear :: "string option"

text \<open>
  The validators of \<^verbatim>\<open>transactionSchema\<close>. A number path refuses \<^verbatim>\<open>NaN\<close> when it
  casts, and its \<^verbatim>\<open>min\<close> and \<^verbatim>\<open>max\<close> validators compare with \<^verbatim>\<open>>=\<close> and
  \<^verbatim>\<open><=\<close>. A \<^verbatim>\<open>match\<close> validator accepts an absent or empty value. The second group
  is the two paths the update path never modifies.
\<close>

definition amounts_valid :: "transaction \<Rightarrow> bool" where
  "amounts_valid t =
     (totalReceived t \<noteq> NaN \<and> commissionPercent t \<noteq> NaN \<and> commissionAmount t \<noteq> NaN
      \<and> gstAmount t \<noteq> NaN \<and> netIncome t \<noteq> NaN \<and> returnAmount t \<noteq> NaN
      \<and> js_le (fl (1 / 100)) (totalReceived t)
      \<and> js_le (Fin 0) (commissionPercent t) \<and> js_le (commissionPercent t) (Fin 100)
      \<and> js_le (Fin 0) (commissionAmount t)
      \<and> js_le (Fin 0) (gstAmount t)
      \<and> js_le (Fin 0) (returnAmount t)
      \<and> paymentMode t = ''QR''
      \<and> length (remarks t) \<le> 500)"

definition numbering_valid :: "transaction \<Rightarrow> bool" where
  "numbering_valid t =
     ((case invoiceNumber t of None \<Rightarrow> True | Some s \<Rightarrow> s = [] \<or> match_INV s)
      \<and> (case financialYear t of None \<Rightarrow> True | Some s \<Rightarrow> s = [] \<or> match_FY s))"

text \<open>
  \<^verbatim>\<open>Transaction.create(doc)\<close>: the \<^verbatim>\<open>trim\<close> setter, the validators, then the insert, which
  the unique sparse index on \<^verbatim>\<open>invoiceNumber\<close> can refuse.
\<close>

definition Transaction_create :: "transaction \<Rightarrow> transaction list \<Rightarrow> error + (transaction \<times> transaction list)" where
  "Transaction_create doc ts =
     (let t = doc\<lparr>remarks := trim (remarks doc)\<rparr>
      in if \<not> (amounts_valid t \<and> numbering_valid t) then Inl ValidationError
         else if invoiceNumber t \<noteq> None \<and> (\<exists>u \<in> set ts. invoiceNumber u = invoiceNumber t)
           then Inl DuplicateKey
         else Inr (t, ts @ [t]))"

section \<open>Filing locks\<close>

record filing_lock =
  lock_id :: nat
  lock_financialYear :: string
  lock_month :: int
  lock_year :: int
  lockedAt :: jsdate
  lockedBy :: nat
  filingPeriod :: string
  gstr1FilingDate :: "jsdate option"
  gstr3BFilingDate :: "jsdate option"
  lock_remarks :: string
  isLocked :: bool

text \<open>\<^verbatim>\<open>GSTFilingLock.isDateLocked(date)\<close> of \<^verbatim>\<open>models/GSTFilingLock.model.js\<close>.\<close>

definition isDateLocked :: "jsdate \<Rightarrow> filing_lock list \<Rightarrow> bool" where
  "isDateLocked transactionDate locks =
     (let year = getFullYear transactionDate;
          month = getMonth transactionDate + 1;
          fy = getFinancialYear transactionDate
      in \<exists>l \<in> set locks.
           lock_financialYear l = fy \<and> lock_month l = month \<and> lock_year l = year \<and> isLocked l)"



text \<open>\<^verbatim>\<open>GSTFilingLock.unlockMonth(month, year)\<close>: no upsert, \<^verbatim>\<open>null\<close> when nothing matches.\<close>

definition unlockMonth :: "int \<Rightarrow> int \<Rightarrow> filing_lock list \<Rightarrow> (filing_lock \<times> filing_lock list) option" where
  "unlockMonth month year locks =
     (let transactionDate = newDate year (month - 1);
          fy = getFinancialYear transactionDate
      in update_first
           (\<lambda>l. lock_financialYear l = fy \<and> lock_month l = month \<and> lock_year l = year)
           (\<lambda>l. l\<lparr>isLocked := False\<rparr>) locks)"

section \<open>The store, the environment and the audit log\<close>

datatype audit_action =
    FILING_LOCKED | FILING_UNLOCKED | TRANSACTION_CREATED | TRANSACTION_UPDATED
  | TRANSACTION_DELETED | VALIDATION_FAILED

datatype audit_status = SUCCESS | FAILED

record audit_entry =
  action :: audit_action
  performedBy :: nat
  entityId :: "nat option"
  status :: audit_status

text \<open>
  The persisted collections, and the counter from which new documents get identifiers.
\<close>

record state =
  transactions :: "transaction list"
  invoiceNumbers :: "invoice_series list"
  filingLocks :: "filing_lock list"
  auditLogs :: "audit_entry list"
  nextId :: nat

text \<open>
  \<^verbatim>\<open>process.env\<close> after \<^verbatim>\<open>parseFloat\<close> (\<^verbatim>\<open>NaN\<close> when the variable is unset or not
  a number), and the clock.
\<close>

record env =
  GST_RATE :: number
  DEFAULT_COMMISSION_PERCENT :: number
  clock :: jsdate

text \<open>\<^verbatim>\<open>parseFloat(process.env.GST_RATE) || 18\<close>: zero and \<^verbatim>\<open>NaN\<close> are falsy.\<close>

definition gstRate_of :: "env \<Rightarrow> number" where
  "gstRate_of e = (if truthy (GST_RATE e) then GST_RATE e else Fin 18)"

section \<open>Creating a transaction\<close>

record create_request =
  req_date :: "jsdate option"
  req_totalReceived :: json_num
  req_commissionPercent :: "number option"
  req_paymentMode :: "string option"
  req_remarks :: "string option"
  req_user :: nat

text \<open>
  \<^verbatim>\<open>commissionPercent ?? parseFloat(process.env.DEFAULT_COMMISSION_PERCENT) ?? 1\<close>: the
  nullish operator passes \<^verbatim>\<open>NaN\<close> through, so the final \<^verbatim>\<open>?? 1\<close> never applies and the
  value is \<^verbatim>\<open>NaN\<close> when the request has no percentage (\<open>None\<close>) and the variable is
  unset. A percentage sent as a string is converted by every operation applied to it and
  is taken here as the number it denotes.
\<close>

definition commissionPercentValue :: "env \<Rightarrow> create_request \<Rightarrow> number" where
  "commissionPercentValue e req =
     (case req_commissionPercent req of Some p \<Rightarrow> p | None \<Rightarrow> DEFAULT_COMMISSION_PERCENT e)"

text \<open>
  \<^verbatim>\<open>createTransaction\<close> of the transaction controller
  (\<^verbatim>\<open>src/unnamed/part_003\<close>, lines 12 to 96). A response other than 201 and an exception
  passed to \<^verbatim>\<open>next\<close> are \<open>Inl\<close>; the state returned is the store after the call. The
  document handed to \<^verbatim>\<open>Transaction.create\<close> holds the total as the number the schema
  casts it to.
\<close>

definition createTransaction :: "env \<Rightarrow> create_request \<Rightarrow> state \<Rightarrow> (error + transaction) \<times> state" where
  "createTransaction e req st =
     (let totalV = req_totalReceived req;
          percent = commissionPercentValue e req;
          gstRate = gstRate_of e
      in case calculateCommission (ToNumber totalV) percent gstRate of
           Inl err \<Rightarrow> (Inl err, st)
         | Inr calc \<Rightarrow>
             if \<not> validateCalculations (ToNumber totalV) calc then (Inl CalculationValidationFailed, st)
             else
               let transactionDate = (case req_date req of Some d \<Rightarrow> d | None \<Rightarrow> clock e);
                   (invoiceNo, series') = generateInvoiceNumber transactionDate (invoiceNumbers st);
                   st1 = st\<lparr>invoiceNumbers := series'\<rparr>;
                   fy = getFinancialYear transactionDate;
                   gstErrors = validateTransactionForGST (commissionAmount calc) (gstAmount calc) totalV
               in if gstErrors \<noteq> [] then (Inl (GSTValidationFailed gstErrors), st1)
                  else
                    (case Transaction_create
                            \<lparr> commissionAmount = commissionAmount calc,
                              gstAmount = gstAmount calc,
                              netIncome = netIncome calc,
                              returnAmount = returnAmount calc,
                              tid = nextId st1,
                              date = transactionDate,
                              totalReceived = ToNumber totalV,
                              commissionPercent = percent,
                              paymentMode = (case req_paymentMode req of
                                               None \<Rightarrow> ''QR''
                                             | Some m \<Rightarrow> if m = [] then ''QR'' else m),
                              createdBy = req_user req,
                              remarks = (case req_remarks req of None \<Rightarrow> [] | Some r \<Rightarrow> r),
                              invoiceNumber = Some invoiceNo,
                              financialYear = Some fy \<rparr>
                            (transactions st1) of
                       Inl err \<Rightarrow> (Inl err, st1)
                     | Inr (t, ts') \<Rightarrow>
                         (Inr t,
                          st1\<lparr> transactions := ts',
                               nextId := nextId st1 + 1,
                               auditLogs := auditLogs st1 @
                                 [\<lparr> action = TRANSACTION_CREATED, performedBy = req_user req,
                                    entityId = Some (tid t), status = SUCCESS \<rparr>] \<rparr>)))"

section \<open>The filing-lock guard, update and delete\<close>

text \<open>
  \<^verbatim>\<open>checkFilingLock\<close> of \<^verbatim>\<open>middleware/filingLock.middleware.js\<close>
  (\<^verbatim>\<open>src/unnamed/part_002\<close>, lines 8 to 75). \<open>None\<close> is the call of \<^verbatim>\<open>next()\<close>; a refusal
  is logged as a failed validation.
\<close>

definition checkFilingLock :: "env \<Rightarrow> nat \<Rightarrow> nat option \<Rightarrow> jsdate option \<Rightarrow> state \<Rightarrow> error option \<times> state" where
  "checkFilingLock e user param_id body_date st =
     (case (case param_id of
              Some i \<Rightarrow>
                (case find (\<lambda>t. tid t = i) (transactions st) of
                   None \<Rightarrow> Inl NotFound
                 | Some t \<Rightarrow> Inr (date t))
            | None \<Rightarrow>
                (case body_date of Some d \<Rightarrow> Inr d | None \<Rightarrow> Inr (clock e))) of
        Inl err \<Rightarrow> (Some err, st)
      | Inr transactionDate \<Rightarrow>
          if isDateLocked transactionDate (filingLocks st)
          then (Some FilingLocked,
                st\<lparr> auditLogs := auditLogs st @
                      [\<lparr> action = VALIDATION_FAILED, performedBy = user,
                         entityId = param_id, status = FAILED \<rparr>] \<rparr>)
          else (None, st))"

record update_request =
  upd_date :: "jsdate option"
  upd_totalReceived :: "json_num option"
  upd_commissionPercent :: "number option"
  upd_paymentMode :: "string option"
  upd_remarks :: "string option"
  upd_user :: nat

text \<open>
  \<^verbatim>\<open>updateTransaction\<close> (\<^verbatim>\<open>src/unnamed/part_003\<close>, lines 183 to 229): the derived
  fields are recomputed from the
  merged values and the document is saved, which runs the validators of the paths the
  update touches.
\<close>

definition updateTransaction :: "env \<Rightarrow> nat \<Rightarrow> update_request \<Rightarrow> state \<Rightarrow> (error + transaction) \<times> state" where
  "updateTransaction e i req st =
     (case find (\<lambda>t. tid t = i) (transactions st) of
        None \<Rightarrow> (Inl NotFound, st)
      | Some old \<Rightarrow>
          (let totalV = (case upd_totalReceived req of Some v \<Rightarrow> ToNumber v | None \<Rightarrow> totalReceived old);
               percent = (case upd_commissionPercent req of Some v \<Rightarrow> v | None \<Rightarrow> commissionPercent old);
               gstRate = gstRate_of e
           in case calculateCommission totalV percent gstRate of
                Inl err \<Rightarrow> (Inl err, st)
              | Inr calc \<Rightarrow>
                  (let t = old\<lparr> date := (case upd_date req of Some d \<Rightarrow> d | None \<Rightarrow> date old),
                                 totalReceived := totalV,
                                 commissionPercent := percent,
                                 commissionAmount := commissionAmount calc,
                                 gstAmount := gstAmount calc,
                                 netIncome := netIncome calc,
                                 returnAmount := returnAmount calc,
                                 paymentMode := (case upd_paymentMode req of Some m \<Rightarrow> m | None \<Rightarrow> paymentMode old),
                                 remarks := trim (case upd_remarks req of Some r \<Rightarrow> r | None \<Rightarrow> remarks old) \<rparr>
                   in if \<not> amounts_valid t then (Inl ValidationError, st)
                      else (Inr t,
                            st\<lparr> transactions := map (\<lambda>u. if tid u = i then t else u) (transactions st),
                                 auditLogs := auditLogs st @
                                   [\<lparr> action = TRANSACTION_UPDATED, performedBy = upd_user req,
                                      entityId = Some (tid t), status = SUCCESS \<rparr>] \<rparr>))))"

text \<open>\<^verbatim>\<open>deleteTransaction\<close> (lines 234 to 239): \<^verbatim>\<open>findByIdAndDelete\<close>, then success.\<close>

definition deleteTransaction :: "nat \<Rightarrow> state \<Rightarrow> state" where
  "deleteTransaction i st = st\<lparr> transactions := filter (\<lambda>t. tid t \<noteq> i) (transactions st) \<rparr>"

text \<open>
  The three mutating routes of \<^verbatim>\<open>routes/transaction.routes.js\<close>
  (\<^verbatim>\<open>src/unnamed/part_005\<close>, lines 28 to 33) as chains of handlers
  (authentication and the request-shape validators are outside the model):
  \<^verbatim>\<open>router.post('/', ..., createTransaction)\<close>,
  \<^verbatim>\<open>router.put('/:id', checkFilingLock, ..., updateTransaction)\<close> and
  \<^verbatim>\<open>router.delete('/:id', checkFilingLock, deleteTransaction)\<close>.
\<close>

definition route_post :: "env \<Rightarrow> create_request \<Rightarrow> state \<Rightarrow> (error + transaction) \<times> state" where
  "route_post e req st = createTransaction e req st"

definition route_put :: "env \<Rightarrow> nat \<Rightarrow> update_request \<Rightarrow> state \<Rightarrow> (error + transaction) \<times> state" where
  "route_put e i req st =
     (case checkFilingLock e (upd_user req) (Some i) (upd_date req) st of
        (Some err, st') \<Rightarrow> (Inl err, st')
      | (None, st') \<Rightarrow> updateTransaction e i req st')"

definition route_delete :: "env \<Rightarrow> nat \<Rightarrow> nat \<Rightarrow> state \<Rightarrow> error option \<times> state" where
  "route_delete e user i st =
     (case checkFilingLock e user (Some i) None st of
        (Some err, st') \<Rightarrow> (Some err, st')
      | (None, st') \<Rightarrow> (None, deleteTransaction i st'))"

section \<open>The lock controller\<close>



section \<open>Compliance validation of a batch\<close>

record compliance_error =
  transactionIndex :: nat
  transactionId :: nat
  field :: string

record compliance_warning =
  warn_transactionIndex :: nat
  warn_transactionId :: nat

record compliance_result =
  isValid :: bool
  errors :: "compliance_error list"
  warnings :: "compliance_warning list"
  totalTransactions :: nat
  validTransactions :: int
  errorCount :: nat
  warningCount :: nat

text \<open>
  The body of the \<^verbatim>\<open>forEach\<close> of \<^verbatim>\<open>validateGSTCompliance\<close> (lines 16 to 91 of
  \<^verbatim>\<open>backend/utils/gstValidation.js\<close>): the errors and warnings one transaction adds.
  The expected GST is the literal \<^verbatim>\<open>0.18\<close> times the commission.
\<close>

definition checkTransaction :: "nat \<Rightarrow> transaction \<Rightarrow> compliance_error list \<times> compliance_warning list" where
  "checkTransaction index t =
     (let err = (\<lambda>f. \<lparr> transactionIndex = index, transactionId = tid t, field = f \<rparr>);
          rule1 = (if \<not> truthy (commissionAmount t) \<or> js_le (commissionAmount t) (Fin 0)
                   then [err ''commissionAmount''] else []);
          expectedGST = js_mul (commissionAmount t) (fl (18 / 100));
          gstDifference = Math_abs (js_sub (gstAmount t) expectedGST);
          rule2 = (if js_gt gstDifference (fl (1 / 100)) then [err ''gstAmount''] else []);
          rule3 = (if js_lt (Math_abs (js_sub (totalReceived t) (commissionAmount t))) (fl (1 / 100))
                   then [\<lparr> warn_transactionIndex = index, warn_transactionId = tid t \<rparr>] else []);
          expectedNetIncome = js_sub (commissionAmount t) (gstAmount t);
          netIncomeDifference = Math_abs (js_sub (netIncome t) expectedNetIncome);
          rule4 = (if js_gt netIncomeDifference (fl (1 / 100)) then [err ''netIncome''] else []);
          expectedReturn = js_sub (totalReceived t) (commissionAmount t);
          returnDifference = Math_abs (js_sub (returnAmount t) expectedReturn);
          rule5 = (if js_gt returnDifference (fl (1 / 100)) then [err ''returnAmount''] else [])
      in (rule1 @ rule2 @ rule4 @ rule5, rule3))"

definition validateGSTCompliance :: "transaction list \<Rightarrow> compliance_result" where
  "validateGSTCompliance ts =
     (let results = map (\<lambda>(index, t). checkTransaction index t) (enumerate 0 ts);
          errs = concat (map fst results);
          warns = concat (map snd results)
      in \<lparr> isValid = (length errs = 0),
           errors = errs,
           warnings = warns,
           totalTransactions = length ts,
           validTransactions = int (length ts) - int (length errs),
           errorCount = length errs,
           warningCount = length warns \<rparr>)"

section \<open>Observations used in the statements\<close>

text \<open>
  The counter and the prefix of a financial year in the series collection: those of the
  first document of that year, and the values an upsert starts from when there is none.
\<close>

definition counter :: "string \<Rightarrow> invoice_series list \<Rightarrow> nat" where
  "counter fy series =
     (case find (\<lambda>s. inv_financialYear s = fy) series of
        None \<Rightarrow> 0 | Some r \<Rightarrow> lastSequenceNumber r)"

definition prefix_of :: "string \<Rightarrow> invoice_series list \<Rightarrow> string" where
  "prefix_of fy series =
     (case find (\<lambda>s. inv_financialYear s = fy) series of
        None \<Rightarrow> ''INV'' | Some r \<Rightarrow> inv_prefix r)"

text \<open>Reading a decimal numeral back, to show that distinct counters print differently.\<close>

definition digit_val :: "char \<Rightarrow> nat" where
  "digit_val c = length (takeWhile (\<lambda>x. x \<noteq> c) ''0123456789'')"

definition nat_of_digits :: "string \<Rightarrow> nat" where
  "nat_of_digits s = foldl (\<lambda>a c. 10 * a + digit_val c) 0 s"


section \<open>Rounding to binary64\<close>

text \<open>
  Facts about \<open>fl\<close>: its value from an exponent and a significand that are given, which
  settles each arithmetic step of an evaluation, and a bound on its error, which settles
  the statements about all inputs of a range.
\<close>

lemma fl_zero: "fl 0 = Fin 0"
  by (simp add: fl_def)

lemma pow2_pos: "0 < pow2 e"
  by (simp add: pow2_def)

lemma pow2_nonpos: "q \<le> 0 \<Longrightarrow> pow2 q = 1 / 2 ^ nat (- q)"
  by (cases "q = 0") (simp_all add: pow2_def)

lemma pow2_le_one: "q \<le> 0 \<Longrightarrow> pow2 q \<le> 1"
  by (simp add: pow2_nonpos)

lemma pow2_nonneg: "0 \<le> q \<Longrightarrow> pow2 q = 2 ^ nat q"
  by (simp add: pow2_def)

lemma floor_log2_eq:
  assumes lo: "pow2 e \<le> a" and hi: "a < pow2 (e + 1)"
  shows "floor_log2 a = e"
proof (cases "1 \<le> a")
  case True
  have e0: "0 \<le> e"
  proof (rule ccontr)
    assume "\<not> 0 \<le> e"
    then have "e + 1 \<le> 0" by simp
    then have "pow2 (e + 1) \<le> 1" by (rule pow2_le_one)
    then show False using hi True by simp
  qed
  have l1: "(of_int (2 ^ nat e) :: rat) \<le> a" using lo e0 by (simp add: pow2_nonneg)
  have h1: "a < (of_int (2 ^ nat (e + 1)) :: rat)" using hi e0 by (simp add: pow2_nonneg)
  have l2: "2 ^ nat e \<le> \<lfloor>a\<rfloor>" using l1 by (simp only: le_floor_iff)
  have h2: "\<lfloor>a\<rfloor> < 2 ^ nat (e + 1)" using h1 by (simp only: floor_less_iff)
  have "bitlen \<lfloor>a\<rfloor> \<le> e + 1" using h2 e0 by (simp add: bitlen_le_iff_power)
  moreover have "nat (e + 1) - 1 = nat e" using e0 by simp
  then have "e + 1 \<le> bitlen \<lfloor>a\<rfloor>" using l2 by (simp add: bitlen_ge_iff_power)
  ultimately have "bitlen \<lfloor>a\<rfloor> = e + 1" by simp
  then show ?thesis using True by (simp add: floor_log2_def)
next
  case False
  have apos: "0 < a" using lo pow2_pos[of e] by simp
  have en: "e < 0"
  proof (rule ccontr)
    assume "\<not> e < 0"
    then have "pow2 e = 2 ^ nat e" by (simp add: pow2_nonneg)
    moreover have "(1::rat) \<le> 2 ^ nat e" by simp
    ultimately show False using lo False by simp
  qed
  define k where "k = nat (- e)"
  have k1: "1 \<le> k" using en by (simp add: k_def)
  have pe: "pow2 e = 1 / 2 ^ k" using en pow2_nonpos[of e] by (simp add: k_def)
  have "nat (- (e + 1)) = k - 1" using en by (simp add: k_def)
  then have pe1: "pow2 (e + 1) = 1 / 2 ^ (k - 1)" using en pow2_nonpos[of "e + 1"] by simp
  have u: "1 / a \<le> 2 ^ k"
  proof -
    have "1 / 2 ^ k \<le> a" using lo pe by simp
    then have "1 \<le> a * 2 ^ k" by (simp add: pos_divide_le_eq)
    then show ?thesis using apos by (simp add: field_simps)
  qed
  have l: "2 ^ (k - 1) < 1 / a"
  proof -
    have "a < 1 / 2 ^ (k - 1)" using hi pe1 by simp
    then have "a * 2 ^ (k - 1) < 1" by (simp add: pos_less_divide_eq)
    then show ?thesis using apos by (simp add: field_simps)
  qed
  have u2: "\<lceil>1 / a\<rceil> \<le> 2 ^ k"
  proof -
    have "1 / a \<le> of_int (2 ^ k)" using u by simp
    then show ?thesis by (simp only: ceiling_le_iff)
  qed
  have l2: "2 ^ (k - 1) < \<lceil>1 / a\<rceil>"
  proof -
    have "of_int (2 ^ (k - 1)) < 1 / a" using l by simp
    then show ?thesis by (simp only: less_ceiling_iff)
  qed
  have "bitlen (\<lceil>1 / a\<rceil> - 1) \<le> int k" using u2 by (simp add: bitlen_le_iff_power)
  moreover have "int k \<le> bitlen (\<lceil>1 / a\<rceil> - 1)" using l2 by (simp add: bitlen_ge_iff_power)
  ultimately have "bitlen (\<lceil>1 / a\<rceil> - 1) = int k" by simp
  then show ?thesis using False en by (simp add: floor_log2_def k_def)
qed

lemma round_half_even_eq:
  assumes "\<bar>m - of_int n\<bar> < 1 / 2"
  shows "round_half_even m = n"
proof (cases "of_int n \<le> m")
  case True
  have "of_int n \<le> m" "m < of_int n + 1" using assms True by linarith+
  then have "\<lfloor>m\<rfloor> = n" by (rule floor_unique)
  then show ?thesis using assms True by (simp add: round_half_even_def Let_def)
next
  case False
  have p: "of_int (n - 1) = (of_int n :: rat) - 1" by simp
  have "of_int (n - 1) \<le> m" "m < of_int (n - 1) + 1" using assms False p by linarith+
  then have "\<lfloor>m\<rfloor> = n - 1" by (rule floor_unique)
  moreover have "\<not> m - of_int (n - 1) < 1 / 2" using assms False p by linarith
  moreover have "1 / 2 < m - of_int (n - 1)" using assms False p by linarith
  ultimately show ?thesis by (simp add: round_half_even_def Let_def)
qed

lemma round_half_even_tie:
  assumes "\<bar>m - of_int n\<bar> = 1 / 2" and "even n"
  shows "round_half_even m = n"
proof (cases "of_int n \<le> m")
  case True
  then have m: "m = of_int n + 1 / 2" using assms(1) by linarith
  have "of_int n \<le> m" "m < of_int n + 1" using m by simp_all
  then have "\<lfloor>m\<rfloor> = n" by (rule floor_unique)
  then show ?thesis using m assms(2) by (simp add: round_half_even_def Let_def)
next
  case False
  then have m: "m = of_int (n - 1) + 1 / 2" using assms(1) by simp
  have "of_int (n - 1) \<le> m" "m < of_int (n - 1) + 1" using m by simp_all
  then have "\<lfloor>m\<rfloor> = n - 1" by (rule floor_unique)
  moreover have "m - of_int (n - 1) = 1 / 2" using m by simp
  ultimately show ?thesis using assms(2) by (simp add: round_half_even_def Let_def)
qed

text \<open>
  The value of \<open>fl\<close> in the normal range, from the exponent \<open>e\<close> and the significand
  \<open>n\<close>: off a tie, and on one.
\<close>

lemma fl_normal:
  assumes lo: "pow2 e \<le> a" and hi: "a < pow2 (e + 1)"
    and e1: "- 1022 \<le> e" and e2: "e \<le> 1022"
    and rn: "round_half_even (a / pow2 (e - 52)) = n" and n54: "n < 2 ^ 54"
  shows "fl a = Fin (of_int n * pow2 (e - 52))"
proof -
  have apos: "0 < a" using lo pow2_pos[of e] by simp
  have ab: "\<bar>a\<bar> = a" using apos by simp
  have fe: "floor_log2 a = e" by (rule floor_log2_eq[OF lo hi])
  have "bitlen n \<le> 54" using n54 by (simp add: bitlen_le_iff_power)
  then have noov: "\<not> 1024 < e - 52 + bitlen n" using e2 by simp
  have lo': "\<not> e < - 1022" using e1 by simp
  show ?thesis using apos by (simp add: fl_def Let_def ab fe rn noov lo')
qed

lemma fl_eqI:
  assumes "pow2 e \<le> a" and "a < pow2 (e + 1)"
    and "- 1022 \<le> e" and "e \<le> 1022"
    and n: "\<bar>a / pow2 (e - 52) - of_int n\<bar> < 1 / 2" and "n < 2 ^ 54"
  shows "fl a = Fin (of_int n * pow2 (e - 52))"
  using assms(1-4) round_half_even_eq[OF n] assms(6) by (rule fl_normal)

lemma fl_tieI:
  assumes "pow2 e \<le> a" and "a < pow2 (e + 1)"
    and "- 1022 \<le> e" and "e \<le> 1022"
    and n: "\<bar>a / pow2 (e - 52) - of_int n\<bar> = 1 / 2" and ev: "even n" and "n < 2 ^ 54"
  shows "fl a = Fin (of_int n * pow2 (e - 52))"
  using assms(1-4) round_half_even_tie[OF n ev] assms(7) by (rule fl_normal)

text \<open>Whole numbers below \<open>2 ^ 53\<close> are binary64 values.\<close>

lemma round_half_even_of_int: "round_half_even (of_int k) = k"
  by (simp add: round_half_even_def)

lemma fl_of_int:
  assumes pos: "0 < m" and small: "m < 2 ^ 53"
  shows "fl (of_int m) = Fin (of_int m)"
proof -
  define e where "e = bitlen m - 1"
  define j where "j = nat (52 - e)"
  have b1: "1 \<le> bitlen m" using pos bitlen_eq_zero_iff[of m] bitlen_nonneg[of m] by linarith
  have b2: "bitlen m \<le> 53" using small by (simp add: bitlen_le_iff_power)
  have e: "0 \<le> e" "e \<le> 52" using b1 b2 by (simp_all add: e_def)
  have one: "(1::rat) \<le> of_int m" using pos by simp
  have fl2: "floor_log2 (of_int m) = e" using one by (simp add: floor_log2_def e_def)
  have q: "e - 52 \<le> 0" using e by simp
  have pq: "pow2 (e - 52) = 1 / 2 ^ j" using pow2_nonpos[OF q] by (simp add: j_def)
  have scaled: "(of_int m :: rat) / pow2 (e - 52) = of_int (m * 2 ^ j)" by (simp add: pq)
  have n: "round_half_even ((of_int m :: rat) / pow2 (e - 52)) = m * 2 ^ j"
    unfolding scaled by (rule round_half_even_of_int)
  have bl: "bitlen (m * 2 ^ j) = bitlen m + int j" using pos by simp
  have jj: "int j = 52 - e" using e by (simp add: j_def)
  have noov: "\<not> 1024 < (e - 52) + bitlen (m * 2 ^ j)" using bl jj b2 by simp
  have val: "sgn (of_int m :: rat) * of_int (m * 2 ^ j) * pow2 (e - 52) = of_int m"
    using pos by (simp add: pq)
  have ne: "(of_int m :: rat) \<noteq> 0" using pos by simp
  have ab: "\<bar>of_int m :: rat\<bar> = of_int m" using pos by simp
  have lo: "\<not> e < - 1022" using e by simp
  show ?thesis
    unfolding fl_def Let_def using ne lo noov val
    by (simp only: ab fl2 n if_False refl)
qed

text \<open>Rounding is symmetric, and \<^verbatim>\<open>Math.round\<close> from bounds.\<close>

lemma fl_minus: "fl (- x) = js_neg (fl x)"
  by (simp add: fl_def Let_def)

lemma fl_eqI_neg:
  assumes "pow2 e \<le> a" and "a < pow2 (e + 1)"
    and "- 1022 \<le> e" and "e \<le> 1022"
    and "\<bar>a / pow2 (e - 52) - of_int n\<bar> < 1 / 2" and "n < 2 ^ 54"
  shows "fl (- a) = Fin (- (of_int n * pow2 (e - 52)))"
  using fl_eqI[OF assms] by (simp add: fl_minus)

lemma fl_tieI_neg:
  assumes "pow2 e \<le> a" and "a < pow2 (e + 1)"
    and "- 1022 \<le> e" and "e \<le> 1022"
    and "\<bar>a / pow2 (e - 52) - of_int n\<bar> = 1 / 2" and "even n" and "n < 2 ^ 54"
  shows "fl (- a) = Fin (- (of_int n * pow2 (e - 52)))"
  using fl_tieI[OF assms] by (simp add: fl_minus)

lemma Math_round_eqI:
  "of_int k \<le> a + 1 / 2 \<Longrightarrow> a + 1 / 2 < of_int k + 1 \<Longrightarrow> Math_round (Fin a) = Fin (of_int k)"
  by (simp add: floor_unique)

lemma Math_round_of_int: "Math_round (Fin (of_int k)) = Fin (of_int k)"
  by (rule Math_round_eqI) simp_all











section \<open>Properties of the calculation rule\<close>

lemma calculateCommission_Inl_iff:
  "calculateCommission T p g = Inl err \<longleftrightarrow>
     err = InvalidInput \<and> (js_le T (Fin 0) \<or> js_lt p (Fin 0) \<or> js_gt p (Fin 100)
                            \<or> js_lt g (Fin 0) \<or> js_gt g (Fin 100))"
  unfolding calculateCommission_def Let_def by auto

text \<open>
  The literal \<^verbatim>\<open>0.01\<close>, and the calculation rule and its check \<open>validateCalculations\<close>
  at four inputs. Every arithmetic step of an evaluation is one rounding, settled by its
  exponent and its significand (\<open>fl_eqI\<close>, and \<open>fl_tieI\<close> on a tie).
\<close>

lemma fl_cent: "fl (1 / 100) = Fin (5764607523034235 / 576460752303423488)"
  using fl_eqI[of "- 7" "1 / 100" 5764607523034235] by (simp add: pow2_def)

lemma calculateCommission_36_40:
  "calculateCommission (fl (182 / 5)) (Fin 1) (Fin 18) =
     Inr \<lparr> commissionAmount = fl (9 / 25), gstAmount = fl (7 / 100), netIncome = fl (3 / 10), returnAmount = fl (901 / 25) \<rparr>"
proof -
  have s1: "fl (182 / 5) = Fin (5122844576133939 / 140737488355328)"
    using fl_eqI[of "5" "182 / 5" "5122844576133939"] by (simp add: pow2_def)
  have s2: "fl (9 / 25) = Fin (3242591731706757 / 9007199254740992)"
    using fl_eqI[of "(- 2)" "9 / 25" "6485183463413514"] by (simp add: pow2_def)
  have s3: "fl (7 / 100) = Fin (1261007895663739 / 18014398509481984)"
    using fl_eqI[of "(- 4)" "7 / 100" "5044031582654956"] by (simp add: pow2_def)
  have s4: "fl (3 / 10) = Fin (5404319552844595 / 18014398509481984)"
    using fl_eqI[of "(- 2)" "3 / 10" "5404319552844595"] by (simp add: pow2_def)
  have s5: "fl (901 / 25) = Fin (5072179080326021 / 140737488355328)"
    using fl_eqI[of "5" "901 / 25" "5072179080326021"] by (simp add: pow2_def)
  have s6: "js_mul (Fin (5122844576133939 / 140737488355328)) (Fin 1) = Fin (5122844576133939 / 140737488355328)"
    using fl_eqI[of "5" "5122844576133939 / 140737488355328" "5122844576133939"] by (simp add: pow2_def)
  have s7: "js_div (Fin (5122844576133939 / 140737488355328)) (Fin 100) = Fin (3278620528725721 / 9007199254740992)"
    using fl_eqI[of "(- 2)" "5122844576133939 / 14073748835532800" "6557241057451442"] by (simp add: pow2_def)
  have s8: "js_mul (Fin (3278620528725721 / 9007199254740992)) (Fin 18) = Fin (922112023704109 / 140737488355328)"
    using fl_eqI[of "2" "29507584758531489 / 4503599627370496" "7376896189632872"] by (simp add: pow2_def)
  have s9: "js_div (Fin (922112023704109 / 140737488355328)) (Fin 100) = Fin (2360606780682519 / 36028797018963968)"
    using fl_eqI[of "(- 4)" "922112023704109 / 14073748835532800" "4721213561365038"] by (simp add: pow2_def)
  have s10: "js_sub (Fin (3278620528725721 / 9007199254740992)) (Fin (2360606780682519 / 36028797018963968)) = Fin (2688468833555091 / 9007199254740992)"
    using fl_tieI[of "(- 2)" "10753875334220365 / 36028797018963968" "5376937667110182"] by (simp add: pow2_def js_sub_def)
  have s11: "js_sub (Fin (5122844576133939 / 140737488355328)) (Fin (3278620528725721 / 9007199254740992)) = Fin (633952016296575 / 17592186044416)"
    using fl_eqI[of "5" "324583432343846375 / 9007199254740992" "5071616130372600"] by (simp add: pow2_def js_sub_def)
  have s12: "js_mul (Fin (3278620528725721 / 9007199254740992)) (Fin 100) = Fin (5122844576133939 / 140737488355328)"
    using fl_eqI[of "5" "81965513218143025 / 2251799813685248" "5122844576133939"] by (simp add: pow2_def)
  have s13: "Math_round (Fin (5122844576133939 / 140737488355328)) = Fin 36"
    using Math_round_eqI[of "36" "5122844576133939 / 140737488355328"] by simp
  have s14: "js_div (Fin 36) (Fin 100) = Fin (3242591731706757 / 9007199254740992)"
    using fl_eqI[of "(- 2)" "9 / 25" "6485183463413514"] by (simp add: pow2_def)
  have s15: "js_mul (Fin (2360606780682519 / 36028797018963968)) (Fin 100) = Fin (922112023704109 / 140737488355328)"
    using fl_eqI[of "2" "59015169517062975 / 9007199254740992" "7376896189632872"] by (simp add: pow2_def)
  have s16: "Math_round (Fin (922112023704109 / 140737488355328)) = Fin 7"
    using Math_round_eqI[of "7" "922112023704109 / 140737488355328"] by simp
  have s17: "js_div (Fin 7) (Fin 100) = Fin (1261007895663739 / 18014398509481984)"
    using fl_eqI[of "(- 4)" "7 / 100" "5044031582654956"] by (simp add: pow2_def)
  have s18: "js_mul (Fin (2688468833555091 / 9007199254740992)) (Fin 100) = Fin (8401465104859659 / 281474976710656)"
    using fl_eqI[of "4" "67211720838877275 / 2251799813685248" "8401465104859659"] by (simp add: pow2_def)
  have s19: "Math_round (Fin (8401465104859659 / 281474976710656)) = Fin 30"
    using Math_round_eqI[of "30" "8401465104859659 / 281474976710656"] by simp
  have s20: "js_div (Fin 30) (Fin 100) = Fin (5404319552844595 / 18014398509481984)"
    using fl_eqI[of "(- 2)" "3 / 10" "5404319552844595"] by (simp add: pow2_def)
  have s21: "js_mul (Fin (633952016296575 / 17592186044416)) (Fin 100) = Fin (1981100050926797 / 549755813888)"
    using fl_tieI[of "11" "15848800407414375 / 4398046511104" "7924400203707188"] by (simp add: pow2_def)
  have s22: "Math_round (Fin (1981100050926797 / 549755813888)) = Fin 3604"
    using Math_round_eqI[of "3604" "1981100050926797 / 549755813888"] by simp
  have s23: "js_div (Fin 3604) (Fin 100) = Fin (5072179080326021 / 140737488355328)"
    using fl_eqI[of "5" "901 / 25" "5072179080326021"] by (simp add: pow2_def)
  show ?thesis
    by (simp add: calculateCommission_def Let_def js_le_def js_gt_def s1 s2 s3 s4 s5 s6 s7 s8 s9 s10 s11 s12 s13 s14 s15 s16 s17 s18 s19 s20 s21 s22 s23
        del: js_mul.simps js_div.simps js_add.simps Math_round.simps)
qed

lemma validateCalculations_36_40:
  "\<not> validateCalculations (fl (182 / 5))
       \<lparr> commissionAmount = fl (9 / 25), gstAmount = fl (7 / 100), netIncome = fl (3 / 10), returnAmount = fl (901 / 25) \<rparr>"
proof -
  have s1: "fl (182 / 5) = Fin (5122844576133939 / 140737488355328)"
    using fl_eqI[of "5" "182 / 5" "5122844576133939"] by (simp add: pow2_def)
  have s2: "fl (9 / 25) = Fin (3242591731706757 / 9007199254740992)"
    using fl_eqI[of "(- 2)" "9 / 25" "6485183463413514"] by (simp add: pow2_def)
  have s3: "fl (7 / 100) = Fin (1261007895663739 / 18014398509481984)"
    using fl_eqI[of "(- 4)" "7 / 100" "5044031582654956"] by (simp add: pow2_def)
  have s4: "fl (3 / 10) = Fin (5404319552844595 / 18014398509481984)"
    using fl_eqI[of "(- 2)" "3 / 10" "5404319552844595"] by (simp add: pow2_def)
  have s5: "fl (901 / 25) = Fin (5072179080326021 / 140737488355328)"
    using fl_eqI[of "5" "901 / 25" "5072179080326021"] by (simp add: pow2_def)
  have s6: "fl (1 / 100) = Fin (5764607523034235 / 576460752303423488)"
    using fl_eqI[of "(- 7)" "1 / 100" "5764607523034235"] by (simp add: pow2_def)
  have s7: "js_add (Fin (3242591731706757 / 9007199254740992)) (Fin (5072179080326021 / 140737488355328)) = Fin (5122844576133939 / 140737488355328)"
    using fl_eqI[of "5" "327862052872572101 / 9007199254740992" "5122844576133939"] by (simp add: pow2_def)
  have s8: "js_sub (Fin (5122844576133939 / 140737488355328)) (Fin (5122844576133939 / 140737488355328)) = Fin 0"
    by (simp add: fl_zero js_sub_def)
  have s9: "js_sub (Fin (3242591731706757 / 9007199254740992)) (Fin (1261007895663739 / 18014398509481984)) = Fin (5224175567749775 / 18014398509481984)"
    using fl_eqI[of "(- 2)" "5224175567749775 / 18014398509481984" "5224175567749775"] by (simp add: pow2_def js_sub_def)
  have s10: "js_sub (Fin (5224175567749775 / 18014398509481984)) (Fin (5404319552844595 / 18014398509481984)) = Fin (- (45035996273705 / 4503599627370496))"
    using fl_eqI_neg[of "(- 7)" "45035996273705 / 4503599627370496" "5764607523034240"] by (simp add: pow2_def js_sub_def)
  show ?thesis
    by (simp add: validateCalculations_def Let_def s1 s2 s3 s4 s5 s6 s7 s8 s9 s10
        del: js_mul.simps js_div.simps js_add.simps Math_round.simps)
qed

lemma calculateCommission_0_50:
  "calculateCommission (Fin (1 / 2)) (Fin 1) (Fin 18) =
     Inr \<lparr> commissionAmount = fl (1 / 100), gstAmount = Fin 0, netIncome = Fin 0, returnAmount = Fin (1 / 2) \<rparr>"
proof -
  have s1: "fl (1 / 100) = Fin (5764607523034235 / 576460752303423488)"
    using fl_eqI[of "(- 7)" "1 / 100" "5764607523034235"] by (simp add: pow2_def)
  have s2: "js_mul (Fin (1 / 2)) (Fin 1) = Fin (1 / 2)"
    using fl_eqI[of "(- 1)" "1 / 2" "4503599627370496"] by (simp add: pow2_def)
  have s3: "js_div (Fin (1 / 2)) (Fin 100) = Fin (5764607523034235 / 1152921504606846976)"
    using fl_eqI[of "(- 8)" "1 / 200" "5764607523034235"] by (simp add: pow2_def)
  have s4: "js_mul (Fin (5764607523034235 / 1152921504606846976)) (Fin 18) = Fin (3242591731706757 / 36028797018963968)"
    using fl_eqI[of "(- 4)" "51881467707308115 / 576460752303423488" "6485183463413514"] by (simp add: pow2_def)
  have s5: "js_div (Fin (3242591731706757 / 36028797018963968)) (Fin 100) = Fin (4150517416584649 / 4611686018427387904)"
    using fl_eqI[of "(- 11)" "3242591731706757 / 3602879701896396800" "8301034833169298"] by (simp add: pow2_def)
  have s6: "js_sub (Fin (5764607523034235 / 1152921504606846976)) (Fin (4150517416584649 / 4611686018427387904)) = Fin (4726978168888073 / 1152921504606846976)"
    using fl_eqI[of "(- 8)" "18907912675552291 / 4611686018427387904" "4726978168888073"] by (simp add: pow2_def js_sub_def)
  have s7: "js_sub (Fin (1 / 2)) (Fin (5764607523034235 / 1152921504606846976)) = Fin (4458563631096791 / 9007199254740992)"
    using fl_eqI[of "(- 2)" "570696144780389253 / 1152921504606846976" "8917127262193582"] by (simp add: pow2_def js_sub_def)
  have s8: "js_mul (Fin (5764607523034235 / 1152921504606846976)) (Fin 100) = Fin (1 / 2)"
    using fl_eqI[of "(- 1)" "144115188075855875 / 288230376151711744" "4503599627370496"] by (simp add: pow2_def)
  have s9: "Math_round (Fin (1 / 2)) = Fin 1"
    using Math_round_eqI[of "1" "1 / 2"] by simp
  have s10: "js_div (Fin 1) (Fin 100) = Fin (5764607523034235 / 576460752303423488)"
    using fl_eqI[of "(- 7)" "1 / 100" "5764607523034235"] by (simp add: pow2_def)
  have s11: "js_mul (Fin (4150517416584649 / 4611686018427387904)) (Fin 100) = Fin (3242591731706757 / 36028797018963968)"
    using fl_eqI[of "(- 4)" "103762935414616225 / 1152921504606846976" "6485183463413514"] by (simp add: pow2_def)
  have s12: "Math_round (Fin (3242591731706757 / 36028797018963968)) = Fin 0"
    using Math_round_eqI[of "0" "3242591731706757 / 36028797018963968"] by simp
  have s13: "js_div (Fin 0) (Fin 100) = Fin 0"
    by (simp add: fl_zero)
  have s14: "js_mul (Fin (4726978168888073 / 1152921504606846976)) (Fin 100) = Fin (3692951694443807 / 9007199254740992)"
    using fl_eqI[of "(- 2)" "118174454222201825 / 288230376151711744" "7385903388887614"] by (simp add: pow2_def)
  have s15: "Math_round (Fin (3692951694443807 / 9007199254740992)) = Fin 0"
    using Math_round_eqI[of "0" "3692951694443807 / 9007199254740992"] by simp
  have s16: "js_mul (Fin (4458563631096791 / 9007199254740992)) (Fin 100) = Fin (99 / 2)"
    using fl_eqI[of "5" "111464090777419775 / 2251799813685248" "6966505673588736"] by (simp add: pow2_def)
  have s17: "Math_round (Fin (99 / 2)) = Fin 50"
    using Math_round_eqI[of "50" "99 / 2"] by simp
  have s18: "js_div (Fin 50) (Fin 100) = Fin (1 / 2)"
    using fl_eqI[of "(- 1)" "1 / 2" "4503599627370496"] by (simp add: pow2_def)
  show ?thesis
    by (simp add: calculateCommission_def Let_def js_le_def js_gt_def s1 s2 s3 s4 s5 s6 s7 s8 s9 s10 s11 s12 s13 s14 s15 s16 s17 s18
        del: js_mul.simps js_div.simps js_add.simps Math_round.simps)
qed

lemma validateCalculations_0_50:
  "\<not> validateCalculations (Fin (1 / 2))
       \<lparr> commissionAmount = fl (1 / 100), gstAmount = Fin 0, netIncome = Fin 0, returnAmount = Fin (1 / 2) \<rparr>"
proof -
  have s1: "fl (1 / 100) = Fin (5764607523034235 / 576460752303423488)"
    using fl_eqI[of "(- 7)" "1 / 100" "5764607523034235"] by (simp add: pow2_def)
  have s2: "js_add (Fin (5764607523034235 / 576460752303423488)) (Fin (1 / 2)) = Fin (2296835809958953 / 4503599627370496)"
    using fl_eqI[of "(- 1)" "293994983674745979 / 576460752303423488" "4593671619917906"] by (simp add: pow2_def)
  have s3: "js_sub (Fin (2296835809958953 / 4503599627370496)) (Fin (1 / 2)) = Fin (45035996273705 / 4503599627370496)"
    using fl_eqI[of "(- 7)" "45035996273705 / 4503599627370496" "5764607523034240"] by (simp add: pow2_def js_sub_def)
  have s4: "js_sub (Fin (5764607523034235 / 576460752303423488)) (Fin 0) = Fin (5764607523034235 / 576460752303423488)"
    using fl_eqI[of "(- 7)" "5764607523034235 / 576460752303423488" "5764607523034235"] by (simp add: pow2_def js_sub_def)
  show ?thesis
    by (simp add: validateCalculations_def Let_def s1 s2 s3 s4
        del: js_mul.simps js_div.simps js_add.simps Math_round.simps)
qed

lemma calculateCommission_large:
  "calculateCommission (Fin (189351434285495 / 2)) (Fin 1) (Fin 18) =
     Inr \<lparr> commissionAmount = Fin (1938958687083479 / 2048), gstAmount = Fin (2792100509400269 / 16384), netIncome = Fin (3179892246816891 / 4096), returnAmount = Fin (5998653438164483 / 64) \<rparr>"
proof -
  have s1: "js_mul (Fin (189351434285495 / 2)) (Fin 1) = Fin (189351434285495 / 2)"
    using fl_eqI[of "46" "189351434285495 / 2" "6059245897135840"] by (simp add: pow2_def)
  have s2: "js_div (Fin (189351434285495 / 2)) (Fin 100) = Fin (7755834748333875 / 8192)"
    using fl_eqI[of "39" "37870286857099 / 40" "7755834748333875"] by (simp add: pow2_def)
  have s3: "js_mul (Fin (7755834748333875 / 8192)) (Fin 18) = Fin (8725314091875609 / 512)"
    using fl_eqI[of "43" "69802512735004875 / 4096" "8725314091875609"] by (simp add: pow2_def)
  have s4: "js_div (Fin (8725314091875609 / 512)) (Fin 100) = Fin (2792100509400195 / 16384)"
    using fl_eqI[of "37" "8725314091875609 / 51200" "5584201018800390"] by (simp add: pow2_def)
  have s5: "js_sub (Fin (7755834748333875 / 8192)) (Fin (2792100509400195 / 16384)) = Fin (3179892246816889 / 4096)"
    using fl_tieI[of "39" "12719568987267555 / 16384" "6359784493633778"] by (simp add: pow2_def js_sub_def)
  have s6: "js_sub (Fin (189351434285495 / 2)) (Fin (7755834748333875 / 8192)) = Fin (2999326719082241 / 32)"
    using fl_eqI[of "46" "767827640085053645 / 8192" "5998653438164482"] by (simp add: pow2_def js_sub_def)
  have s7: "js_mul (Fin (7755834748333875 / 8192)) (Fin 100) = Fin (189351434285495 / 2)"
    using fl_eqI[of "46" "193895868708346875 / 2048" "6059245897135840"] by (simp add: pow2_def)
  have s8: "Math_round (Fin (189351434285495 / 2)) = Fin 94675717142748"
    using Math_round_eqI[of "94675717142748" "189351434285495 / 2"] by simp
  have s9: "js_div (Fin 94675717142748) (Fin 100) = Fin (1938958687083479 / 2048)"
    using fl_eqI[of "39" "23668929285687 / 25" "7755834748333916"] by (simp add: pow2_def)
  have s10: "js_mul (Fin (2792100509400195 / 16384)) (Fin 100) = Fin (8725314091875609 / 512)"
    using fl_eqI[of "43" "69802512735004875 / 4096" "8725314091875609"] by (simp add: pow2_def)
  have s11: "Math_round (Fin (8725314091875609 / 512)) = Fin 17041629085695"
    using Math_round_eqI[of "17041629085695" "8725314091875609 / 512"] by simp
  have s12: "js_div (Fin 17041629085695) (Fin 100) = Fin (2792100509400269 / 16384)"
    using fl_eqI[of "37" "3408325817139 / 20" "5584201018800538"] by (simp add: pow2_def)
  have s13: "js_mul (Fin (3179892246816889 / 4096)) (Fin 100) = Fin (4968581635651389 / 64)"
    using fl_eqI[of "46" "79497306170422225 / 1024" "4968581635651389"] by (simp add: pow2_def)
  have s14: "Math_round (Fin (4968581635651389 / 64)) = Fin 77634088057053"
    using Math_round_eqI[of "77634088057053" "4968581635651389 / 64"] by simp
  have s15: "js_div (Fin 77634088057053) (Fin 100) = Fin (3179892246816891 / 4096)"
    using fl_eqI[of "39" "77634088057053 / 100" "6359784493633782"] by (simp add: pow2_def)
  have s16: "js_mul (Fin (2999326719082241 / 32)) (Fin 100) = Fin 9372895997132004"
    using fl_eqI[of "53" "74983167977056025 / 8" "4686447998566002"] by (simp add: pow2_def)
  have s17: "Math_round (Fin 9372895997132004) = Fin 9372895997132004"
    using Math_round_eqI[of "9372895997132004" "9372895997132004"] by simp
  have s18: "js_div (Fin 9372895997132004) (Fin 100) = Fin (5998653438164483 / 64)"
    using fl_eqI[of "46" "2343223999283001 / 25" "5998653438164483"] by (simp add: pow2_def)
  show ?thesis
    by (simp add: calculateCommission_def Let_def js_le_def js_gt_def s1 s2 s3 s4 s5 s6 s7 s8 s9 s10 s11 s12 s13 s14 s15 s16 s17 s18
        del: js_mul.simps js_div.simps js_add.simps Math_round.simps)
qed

lemma validateCalculations_large:
  "\<not> validateCalculations (Fin (189351434285495 / 2))
       \<lparr> commissionAmount = Fin (1938958687083479 / 2048), gstAmount = Fin (2792100509400269 / 16384), netIncome = Fin (3179892246816891 / 4096), returnAmount = Fin (5998653438164483 / 64) \<rparr>"
proof -
  have s1: "fl (1 / 100) = Fin (5764607523034235 / 576460752303423488)"
    using fl_eqI[of "(- 7)" "1 / 100" "5764607523034235"] by (simp add: pow2_def)
  have s2: "js_add (Fin (1938958687083479 / 2048)) (Fin (5998653438164483 / 64)) = Fin (3029622948567921 / 32)"
    using fl_eqI[of "46" "193895868708346935 / 2048" "6059245897135842"] by (simp add: pow2_def)
  have s3: "js_sub (Fin (3029622948567921 / 32)) (Fin (189351434285495 / 2)) = Fin (1 / 32)"
    using fl_eqI[of "(- 5)" "1 / 32" "4503599627370496"] by (simp add: pow2_def js_sub_def)
  have s4: "js_sub (Fin (1938958687083479 / 2048)) (Fin (2792100509400269 / 16384)) = Fin (3179892246816891 / 4096)"
    using fl_tieI[of "39" "12719568987267563 / 16384" "6359784493633782"] by (simp add: pow2_def js_sub_def)
  have s5: "js_sub (Fin (3179892246816891 / 4096)) (Fin (3179892246816891 / 4096)) = Fin 0"
    by (simp add: fl_zero js_sub_def)
  show ?thesis
    by (simp add: validateCalculations_def Let_def s1 s2 s3 s4 s5
        del: js_mul.simps js_div.simps js_add.simps Math_round.simps)
qed

lemma calculateCommission_10000:
  "calculateCommission (Fin 10000) (Fin 1) (Fin 18) =
     Inr \<lparr> commissionAmount = Fin 100, gstAmount = Fin 18, netIncome = Fin 82, returnAmount = Fin 9900 \<rparr>"
proof -
  have s1: "js_mul (Fin 10000) (Fin 1) = Fin 10000"
    using fl_eqI[of "13" "10000" "5497558138880000"] by (simp add: pow2_def)
  have s2: "js_div (Fin 10000) (Fin 100) = Fin 100"
    using fl_eqI[of "6" "100" "7036874417766400"] by (simp add: pow2_def)
  have s3: "js_mul (Fin 100) (Fin 18) = Fin 1800"
    using fl_eqI[of "10" "1800" "7916483719987200"] by (simp add: pow2_def)
  have s4: "js_div (Fin 1800) (Fin 100) = Fin 18"
    using fl_eqI[of "4" "18" "5066549580791808"] by (simp add: pow2_def)
  have s5: "js_sub (Fin 100) (Fin 18) = Fin 82"
    using fl_eqI[of "6" "82" "5770237022568448"] by (simp add: pow2_def js_sub_def)
  have s6: "js_sub (Fin 10000) (Fin 100) = Fin 9900"
    using fl_eqI[of "13" "9900" "5442582557491200"] by (simp add: pow2_def js_sub_def)
  have s7: "js_mul (Fin 100) (Fin 100) = Fin 10000"
    using fl_eqI[of "13" "10000" "5497558138880000"] by (simp add: pow2_def)
  have s8: "Math_round (Fin 10000) = Fin 10000"
    using Math_round_eqI[of "10000" "10000"] by simp
  have s9: "js_mul (Fin 18) (Fin 100) = Fin 1800"
    using fl_eqI[of "10" "1800" "7916483719987200"] by (simp add: pow2_def)
  have s10: "Math_round (Fin 1800) = Fin 1800"
    using Math_round_eqI[of "1800" "1800"] by simp
  have s11: "js_mul (Fin 82) (Fin 100) = Fin 8200"
    using fl_eqI[of "13" "8200" "4507997673881600"] by (simp add: pow2_def)
  have s12: "Math_round (Fin 8200) = Fin 8200"
    using Math_round_eqI[of "8200" "8200"] by simp
  have s13: "js_div (Fin 8200) (Fin 100) = Fin 82"
    using fl_eqI[of "6" "82" "5770237022568448"] by (simp add: pow2_def)
  have s14: "js_mul (Fin 9900) (Fin 100) = Fin 990000"
    using fl_eqI[of "19" "990000" "8504035246080000"] by (simp add: pow2_def)
  have s15: "Math_round (Fin 990000) = Fin 990000"
    using Math_round_eqI[of "990000" "990000"] by simp
  have s16: "js_div (Fin 990000) (Fin 100) = Fin 9900"
    using fl_eqI[of "13" "9900" "5442582557491200"] by (simp add: pow2_def)
  show ?thesis
    by (simp add: calculateCommission_def Let_def js_le_def js_gt_def s1 s2 s3 s4 s5 s6 s7 s8 s9 s10 s11 s12 s13 s14 s15 s16
        del: js_mul.simps js_div.simps js_add.simps Math_round.simps)
qed

lemma validateCalculations_10000:
  "validateCalculations (Fin 10000)
       \<lparr> commissionAmount = Fin 100, gstAmount = Fin 18, netIncome = Fin 82, returnAmount = Fin 9900 \<rparr>"
proof -
  have s1: "fl (1 / 100) = Fin (5764607523034235 / 576460752303423488)"
    using fl_eqI[of "(- 7)" "1 / 100" "5764607523034235"] by (simp add: pow2_def)
  have s2: "js_add (Fin 100) (Fin 9900) = Fin 10000"
    using fl_eqI[of "13" "10000" "5497558138880000"] by (simp add: pow2_def)
  have s3: "js_sub (Fin 10000) (Fin 10000) = Fin 0"
    by (simp add: fl_zero js_sub_def)
  have s4: "js_sub (Fin 100) (Fin 18) = Fin 82"
    using fl_eqI[of "6" "82" "5770237022568448"] by (simp add: pow2_def js_sub_def)
  have s5: "js_sub (Fin 82) (Fin 82) = Fin 0"
    by (simp add: fl_zero js_sub_def)
  show ?thesis
    by (simp add: validateCalculations_def Let_def s1 s2 s3 s4 s5
        del: js_mul.simps js_div.simps js_add.simps Math_round.simps)
qed

lemma per_step_gst_of_0_36:
  "js_div (Math_round (js_mul (js_div (js_mul (fl (9 / 25)) (Fin 18)) (Fin 100)) (Fin 100))) (Fin 100)
     = fl (3 / 50)"
proof -
  have s1: "fl (9 / 25) = Fin (3242591731706757 / 9007199254740992)"
    using fl_eqI[of "(- 2)" "9 / 25" "6485183463413514"] by (simp add: pow2_def)
  have s2: "js_mul (Fin (3242591731706757 / 9007199254740992)) (Fin 18) = Fin (7295831396340203 / 1125899906842624)"
    using fl_eqI[of "2" "29183325585360813 / 4503599627370496" "7295831396340203"] by (simp add: pow2_def)
  have s3: "js_div (Fin (7295831396340203 / 1125899906842624)) (Fin 100) = Fin (2334666046828865 / 36028797018963968)"
    using fl_eqI[of "(- 4)" "7295831396340203 / 112589990684262400" "4669332093657730"] by (simp add: pow2_def)
  have s4: "js_mul (Fin (2334666046828865 / 36028797018963968)) (Fin 100) = Fin (7295831396340203 / 1125899906842624)"
    using fl_eqI[of "2" "58366651170721625 / 9007199254740992" "7295831396340203"] by (simp add: pow2_def)
  have s5: "Math_round (Fin (7295831396340203 / 1125899906842624)) = Fin 6"
    using Math_round_eqI[of "6" "7295831396340203 / 1125899906842624"] by simp
  have s6: "js_div (Fin 6) (Fin 100) = Fin (1080863910568919 / 18014398509481984)"
    using fl_eqI[of "(- 5)" "3 / 50" "8646911284551352"] by (simp add: pow2_def)
  have s7: "fl (3 / 50) = Fin (1080863910568919 / 18014398509481984)"
    using fl_eqI[of "(- 5)" "3 / 50" "8646911284551352"] by (simp add: pow2_def)
  show ?thesis
    by (simp add: s1 s2 s3 s4 s5 s6 s7
        del: js_mul.simps js_div.simps js_add.simps Math_round.simps)
qed

lemma gst_0_07_not_0_06:
  "fl (7 / 100) \<noteq> fl (3 / 50)"
proof -
  have s1: "fl (7 / 100) = Fin (1261007895663739 / 18014398509481984)"
    using fl_eqI[of "(- 4)" "7 / 100" "5044031582654956"] by (simp add: pow2_def)
  have s2: "fl (3 / 50) = Fin (1080863910568919 / 18014398509481984)"
    using fl_eqI[of "(- 5)" "3 / 50" "8646911284551352"] by (simp add: pow2_def)
  show ?thesis
    by (simp add: s1 s2
        del: js_mul.simps js_div.simps js_add.simps Math_round.simps)
qed

text \<open>
  Claim C2: for every valid input \<open>calculateCommission\<close> returns the values rounded step
  by step, the GST being computed from the already rounded commission. The code at the
  total 36.40, a commission of 1 percent and a GST of 18 percent: the commission it
  returns is 0.36 and the GST is 0.07, rounded from the unrounded 0.06552, whereas 18
  percent of the rounded commission 0.36 is 0.0648 and rounds to 0.06, in exact decimals
  (\<open>round2\<close>) and in the arithmetic of the code alike. The values returned here fail the
  check \<open>validateCalculations\<close> that \<open>createTransaction\<close> applies to them, 0.36 - 0.07
  being 0.29 and the net income 0.30.
\<close>

theorem C2_gst_not_from_rounded_commission:
  "calculateCommission (fl (182 / 5)) (Fin 1) (Fin 18) =
     Inr \<lparr> commissionAmount = fl (9 / 25), gstAmount = fl (7 / 100), netIncome = fl (3 / 10), returnAmount = fl (901 / 25) \<rparr>
   \<and> round2 (182 / 5 * 1 / 100) = 9 / 25
   \<and> round2 (9 / 25 * 18 / 100) = 3 / 50
   \<and> js_div (Math_round (js_mul (js_div (js_mul (fl (9 / 25)) (Fin 18)) (Fin 100)) (Fin 100))) (Fin 100)
     = fl (3 / 50)
   \<and> fl (7 / 100) \<noteq> fl (3 / 50)
   \<and> \<not> validateCalculations (fl (182 / 5))
       \<lparr> commissionAmount = fl (9 / 25), gstAmount = fl (7 / 100), netIncome = fl (3 / 10), returnAmount = fl (901 / 25) \<rparr>"
proof (intro conjI)
  show "calculateCommission (fl (182 / 5)) (Fin 1) (Fin 18) =
     Inr \<lparr> commissionAmount = fl (9 / 25), gstAmount = fl (7 / 100), netIncome = fl (3 / 10), returnAmount = fl (901 / 25) \<rparr>"
    by (rule calculateCommission_36_40)
  show "round2 (182 / 5 * 1 / 100) = 9 / 25"
    by code_simp
  show "round2 (9 / 25 * 18 / 100) = 3 / 50"
    by code_simp
  show "js_div (Math_round (js_mul (js_div (js_mul (fl (9 / 25)) (Fin 18)) (Fin 100)) (Fin 100))) (Fin 100)
     = fl (3 / 50)"
    by (rule per_step_gst_of_0_36)
  show "fl (7 / 100) \<noteq> fl (3 / 50)"
    by (rule gst_0_07_not_0_06)
  show "\<not> validateCalculations (fl (182 / 5))
       \<lparr> commissionAmount = fl (9 / 25), gstAmount = fl (7 / 100), netIncome = fl (3 / 10), returnAmount = fl (901 / 25) \<rparr>"
    by (rule validateCalculations_36_40)
qed

text \<open>
  Claim C5: \<open>calculateCommission\<close> fails with \<open>InvalidInput\<close> exactly when the total is
  not above zero or one of the two percentages is outside 0 to 100, the comparisons being
  those of the language (first part) and, on finite numbers, those of the rationals
  (second part); and when it fails inside \<open>createTransaction\<close> the store is returned as
  it was: no invoice number has been taken and nothing has been written (third part). The
  last part says the same of every answer \<open>InvalidInput\<close> of \<open>createTransaction\<close>.
\<close>

theorem C5_invalid_input_before_any_side_effect:
  "(calculateCommission T p g = Inl InvalidInput
      \<longleftrightarrow> (js_le T (Fin 0) \<or> js_lt p (Fin 0) \<or> js_gt p (Fin 100)
           \<or> js_lt g (Fin 0) \<or> js_gt g (Fin 100)))
   \<and> (calculateCommission (Fin t) (Fin q) (Fin r) = Inl InvalidInput
      \<longleftrightarrow> (t \<le> 0 \<or> q < 0 \<or> q > 100 \<or> r < 0 \<or> r > 100))
   \<and> (calculateCommission (ToNumber (req_totalReceived req)) (commissionPercentValue e req)
          (gstRate_of e) = Inl err
      \<longrightarrow> createTransaction e req st = (Inl err, st))
   \<and> (fst (createTransaction e req st) = Inl InvalidInput \<longrightarrow>
        snd (createTransaction e req st) = st)"
proof (intro conjI impI)
  show "calculateCommission T p g = Inl InvalidInput
      \<longleftrightarrow> (js_le T (Fin 0) \<or> js_lt p (Fin 0) \<or> js_gt p (Fin 100)
           \<or> js_lt g (Fin 0) \<or> js_gt g (Fin 100))"
    by (simp add: calculateCommission_Inl_iff)
next
  show "calculateCommission (Fin t) (Fin q) (Fin r) = Inl InvalidInput
      \<longleftrightarrow> (t \<le> 0 \<or> q < 0 \<or> q > 100 \<or> r < 0 \<or> r > 100)"
    by (simp add: calculateCommission_Inl_iff js_le_def js_gt_def not_less)
next
  assume "calculateCommission (ToNumber (req_totalReceived req)) (commissionPercentValue e req)
          (gstRate_of e) = Inl err"
  then show "createTransaction e req st = (Inl err, st)"
    by (simp add: createTransaction_def Let_def)
next
  assume a: "fst (createTransaction e req st) = Inl InvalidInput"
  show "snd (createTransaction e req st) = st"
  proof (cases "calculateCommission (ToNumber (req_totalReceived req))
                  (commissionPercentValue e req) (gstRate_of e)")
    case (Inl err')
    then show ?thesis by (simp add: createTransaction_def Let_def)
  next
    case (Inr calc)
    show ?thesis
    proof (cases "validateCalculations (ToNumber (req_totalReceived req)) calc")
      case False
      with Inr show ?thesis by (simp add: createTransaction_def Let_def)
    next
      case True
      show ?thesis
      proof (cases "validateTransactionForGST (commissionAmount calc) (gstAmount calc)
                      (req_totalReceived req) = []")
        case False
        with Inr True a show ?thesis
          by (simp add: createTransaction_def Let_def split_beta)
      next
        case gst: True
        from Inr True gst a have False
          by (simp add: createTransaction_def Let_def split_beta
              split: sum.splits prod.splits)
             (simp add: Transaction_create_def Let_def split: if_splits)
        then show ?thesis ..
      qed
    qed
  qed
qed

theorem C5_invalid_input_before_any_side_effect_witness:
  "calculateCommission (Fin 0) (Fin 1) (Fin 18) = Inl InvalidInput
   \<and> createTransaction
         \<lparr> GST_RATE = Fin 18, DEFAULT_COMMISSION_PERCENT = NaN,
           clock = \<lparr> getFullYear = 2024, getMonth = 5, getDate = 10 \<rparr> \<rparr>
         \<lparr> req_date = None, req_totalReceived = JsonNumber (Fin 0),
           req_commissionPercent = Some (Fin 1),
           req_paymentMode = None, req_remarks = None, req_user = 7 \<rparr>
         \<lparr> transactions = [], invoiceNumbers = [], filingLocks = [], auditLogs = [], nextId = 0 \<rparr>
       = (Inl InvalidInput,
          \<lparr> transactions = [], invoiceNumbers = [], filingLocks = [], auditLogs = [], nextId = 0 \<rparr>)"
proof -
  let ?e = "\<lparr> GST_RATE = Fin 18, DEFAULT_COMMISSION_PERCENT = NaN,
           clock = \<lparr> getFullYear = 2024, getMonth = 5, getDate = 10 \<rparr> \<rparr>"
  let ?r = "\<lparr> req_date = None, req_totalReceived = JsonNumber (Fin 0),
           req_commissionPercent = Some (Fin 1),
           req_paymentMode = None, req_remarks = None, req_user = 7 \<rparr>"
  have h3: "calculateCommission (Fin 0) (Fin 1) (Fin 18) = Inl InvalidInput"
    by (simp add: calculateCommission_def js_le_def)
  then have h2: "calculateCommission (ToNumber (req_totalReceived ?r)) (commissionPercentValue ?e ?r)
                   (gstRate_of ?e) = Inl InvalidInput"
    by (simp add: commissionPercentValue_def gstRate_of_def truthy_def)
  from C5_invalid_input_before_any_side_effect[THEN conjunct2, THEN conjunct2, THEN conjunct1,
         rule_format, OF h2] h3
  show ?thesis by simp
qed

lemma residual_0_50:
  "js_sub (js_add (fl (1 / 100)) (Fin (1 / 2))) (Fin (1 / 2))
     = Fin (45035996273705 / 4503599627370496)"
proof -
  have s1: "fl (1 / 100) = Fin (5764607523034235 / 576460752303423488)"
    using fl_eqI[of "(- 7)" "1 / 100" "5764607523034235"] by (simp add: pow2_def)
  have s2: "js_add (Fin (5764607523034235 / 576460752303423488)) (Fin (1 / 2)) = Fin (2296835809958953 / 4503599627370496)"
    using fl_eqI[of "(- 1)" "293994983674745979 / 576460752303423488" "4593671619917906"] by (simp add: pow2_def)
  have s3: "js_sub (Fin (2296835809958953 / 4503599627370496)) (Fin (1 / 2)) = Fin (45035996273705 / 4503599627370496)"
    using fl_eqI[of "(- 7)" "45035996273705 / 4503599627370496" "5764607523034240"] by (simp add: pow2_def js_sub_def)
  show ?thesis
    by (simp add: s1 s2 s3
        del: js_mul.simps js_div.simps js_add.simps Math_round.simps)
qed

lemma residual_0_50_above_cent:
  "js_gt (Fin (45035996273705 / 4503599627370496)) (fl (1 / 100))"
  by (simp add: js_gt_def fl_cent)

text \<open>
  Claim C8 (conservation): for every valid input the returned commission plus return
  amount is within 0.01 of the total received, and the returned net income plus GST is
  within 0.01 of the returned commission. The code at the total 0.50 and a commission of
  1 percent: it returns the commission 0.01, the GST and the net income 0 and the return
  amount 0.50; commission plus return amount minus total, as the code computes it, is
  0.010000000000000009, above the literal 0.01, and the net income plus GST is short of
  the commission by all of it. At the total 94675717142747.5 the returned commission and
  return amount add up to 55/2048, about 0.027, more than the total. On both results
  \<open>validateCalculations\<close>, which tests the two equations with this tolerance, is false.
\<close>

theorem C8_returned_values_fail_conservation:
  "calculateCommission (Fin (1 / 2)) (Fin 1) (Fin 18) =
     Inr \<lparr> commissionAmount = fl (1 / 100), gstAmount = Fin 0, netIncome = Fin 0, returnAmount = Fin (1 / 2) \<rparr>
   \<and> js_sub (js_add (fl (1 / 100)) (Fin (1 / 2))) (Fin (1 / 2))
     = Fin (45035996273705 / 4503599627370496)
   \<and> js_gt (Fin (45035996273705 / 4503599627370496)) (fl (1 / 100))
   \<and> \<not> validateCalculations (Fin (1 / 2))
       \<lparr> commissionAmount = fl (1 / 100), gstAmount = Fin 0, netIncome = Fin 0, returnAmount = Fin (1 / 2) \<rparr>
   \<and> calculateCommission (Fin (189351434285495 / 2)) (Fin 1) (Fin 18) =
     Inr \<lparr> commissionAmount = Fin (1938958687083479 / 2048), gstAmount = Fin (2792100509400269 / 16384), netIncome = Fin (3179892246816891 / 4096), returnAmount = Fin (5998653438164483 / 64) \<rparr>
   \<and> (1938958687083479 / 2048) + (5998653438164483 / 64) - (189351434285495 / 2) = (55 / 2048 :: rat)
   \<and> \<not> validateCalculations (Fin (189351434285495 / 2))
       \<lparr> commissionAmount = Fin (1938958687083479 / 2048), gstAmount = Fin (2792100509400269 / 16384), netIncome = Fin (3179892246816891 / 4096), returnAmount = Fin (5998653438164483 / 64) \<rparr>"
proof (intro conjI)
  show "calculateCommission (Fin (1 / 2)) (Fin 1) (Fin 18) =
     Inr \<lparr> commissionAmount = fl (1 / 100), gstAmount = Fin 0, netIncome = Fin 0, returnAmount = Fin (1 / 2) \<rparr>"
    by (rule calculateCommission_0_50)
  show "js_sub (js_add (fl (1 / 100)) (Fin (1 / 2))) (Fin (1 / 2))
     = Fin (45035996273705 / 4503599627370496)"
    by (rule residual_0_50)
  show "js_gt (Fin (45035996273705 / 4503599627370496)) (fl (1 / 100))"
    by (rule residual_0_50_above_cent)
  show "\<not> validateCalculations (Fin (1 / 2))
       \<lparr> commissionAmount = fl (1 / 100), gstAmount = Fin 0, netIncome = Fin 0, returnAmount = Fin (1 / 2) \<rparr>"
    by (rule validateCalculations_0_50)
  show "calculateCommission (Fin (189351434285495 / 2)) (Fin 1) (Fin 18) =
     Inr \<lparr> commissionAmount = Fin (1938958687083479 / 2048), gstAmount = Fin (2792100509400269 / 16384), netIncome = Fin (3179892246816891 / 4096), returnAmount = Fin (5998653438164483 / 64) \<rparr>"
    by (rule calculateCommission_large)
  show "(1938958687083479 / 2048) + (5998653438164483 / 64) - (189351434285495 / 2) = (55 / 2048 :: rat)"
    by simp
  show "\<not> validateCalculations (Fin (189351434285495 / 2))
       \<lparr> commissionAmount = Fin (1938958687083479 / 2048), gstAmount = Fin (2792100509400269 / 16384), netIncome = Fin (3179892246816891 / 4096), returnAmount = Fin (5998653438164483 / 64) \<rparr>"
    by (rule validateCalculations_large)
qed

text \<open>
  What follows for the controller: a request for the total 36.40, or 0.50, at the default
  commission of 1 percent is answered with the failure of the calculation check, and
  nothing is written.
\<close>

lemma createTransaction_refuses_36_40:
  "createTransaction
     \<lparr> GST_RATE = Fin 18, DEFAULT_COMMISSION_PERCENT = Fin 1,
       clock = \<lparr> getFullYear = 2024, getMonth = 5, getDate = 10 \<rparr> \<rparr>
     \<lparr> req_date = None, req_totalReceived = JsonNumber (fl (182 / 5)),
       req_commissionPercent = None,
       req_paymentMode = None, req_remarks = None, req_user = 7 \<rparr> st
   = (Inl CalculationValidationFailed, st)"
  using validateCalculations_36_40
  by (simp add: createTransaction_def Let_def commissionPercentValue_def gstRate_of_def truthy_def
      calculateCommission_36_40)

lemma createTransaction_refuses_0_50:
  "createTransaction
     \<lparr> GST_RATE = Fin 18, DEFAULT_COMMISSION_PERCENT = Fin 1,
       clock = \<lparr> getFullYear = 2024, getMonth = 5, getDate = 10 \<rparr> \<rparr>
     \<lparr> req_date = None, req_totalReceived = JsonNumber (Fin (1 / 2)),
       req_commissionPercent = None,
       req_paymentMode = None, req_remarks = None, req_user = 7 \<rparr> st
   = (Inl CalculationValidationFailed, st)"
  using validateCalculations_0_50
  by (simp add: createTransaction_def Let_def commissionPercentValue_def gstRate_of_def truthy_def
      calculateCommission_0_50)

section \<open>Decimal numerals and the financial year\<close>

lemma String_nat_small: "n < 10 \<Longrightarrow> String_nat n = [digit_char n]"
  by (subst String_nat.simps) simp

lemma String_nat_step: "10 \<le> n \<Longrightarrow> String_nat n = String_nat (n div 10) @ [digit_char (n mod 10)]"
  by (subst String_nat.simps) simp

lemma is_digit_digit_char: "is_digit (digit_char d)"
  unfolding is_digit_def digit_char_def by (rule nth_mem) simp

lemma String_nat_ne: "String_nat n \<noteq> []"
  by (subst String_nat.simps) simp

lemma last_String_nat: "last (String_nat n) = digit_char (n mod 10)"
  by (subst String_nat.simps) simp

lemma all_digits_String_nat: "list_all is_digit (String_nat n)"
proof (induction n rule: String_nat.induct)
  case (1 n)
  show ?case
  proof (cases "n < 10")
    case True
    then show ?thesis by (subst String_nat.simps) (simp add: is_digit_digit_char)
  next
    case False
    with 1 show ?thesis by (subst String_nat.simps) (simp add: is_digit_digit_char)
  qed
qed

lemma length_String_nat: "1 \<le> k \<Longrightarrow> length (String_nat n) \<le> k \<longleftrightarrow> n < 10 ^ k"
proof (induction n arbitrary: k rule: String_nat.induct)
  case (1 n)
  show ?case
  proof (cases "n < 10")
    case True
    have "(10::nat) ^ 1 \<le> 10 ^ k" using "1.prems" by (intro power_increasing) simp_all
    with True have "n < 10 ^ k" by simp
    moreover have "length (String_nat n) = 1" using True by (subst String_nat.simps) simp
    ultimately show ?thesis using "1.prems" by simp
  next
    case False
    have len: "length (String_nat n) = Suc (length (String_nat (n div 10)))"
      using False by (subst String_nat.simps) simp
    show ?thesis
    proof (cases "k = 1")
      case True
      have "length (String_nat (n div 10)) \<noteq> 0"
        using String_nat_ne[of "n div 10"] by simp
      with len True False show ?thesis by simp
    next
      case k: False
      with "1.prems" obtain j where j: "k = Suc j" "1 \<le> j" by (cases k) auto
      have "length (String_nat (n div 10)) \<le> j \<longleftrightarrow> n div 10 < 10 ^ j"
        using "1.IH"[OF False j(2)] .
      also have "\<dots> \<longleftrightarrow> n < 10 ^ k" unfolding j(1) by (simp add: div_less_iff_less_mult mult.commute)
      finally show ?thesis using len j by simp
    qed
  qed
qed

lemma mod100_div10: "(m::nat) mod 100 div 10 = m div 10 mod 10"
proof -
  have "m mod (10 * 10) = 10 * (m div 10 mod 10) + m mod 10" by (rule mod_mult2_eq)
  then have "m mod 100 = 10 * (m div 10 mod 10) + m mod 10" by simp
  then show ?thesis by simp
qed

lemma slice_last2_String_nat:
  assumes "10 \<le> n"
  shows "slice_last2 (String_nat n) = [digit_char ((n div 10) mod 10), digit_char (n mod 10)]"
proof -
  obtain xs where xs: "String_nat (n div 10) = xs @ [digit_char ((n div 10) mod 10)]"
    using String_nat_ne[of "n div 10"] last_String_nat[of "n div 10"]
    by (metis append_butlast_last_id)
  have "String_nat n = xs @ [digit_char ((n div 10) mod 10), digit_char (n mod 10)]"
    using assms xs by (subst String_nat.simps) simp
  then show ?thesis by (simp add: slice_last2_def)
qed

lemma getFinancialYear_two_digits:
  assumes "10 \<le> (if getMonth d + 1 \<ge> 4 then getFullYear d else getFullYear d - 1)"
  shows "getFinancialYear d = fiscalYear d"
proof -
  define y where "y = (if getMonth d + 1 \<ge> 4 then getFullYear d else getFullYear d - 1)"
  have y: "10 \<le> y" using assms by (simp add: y_def)
  then have n: "10 \<le> nat y" by simp
  have "String_int y = String_nat (nat y)" using y by (simp add: String_int_def)
  then have "slice_last2 (String_int y) = [digit_char ((nat y div 10) mod 10), digit_char (nat y mod 10)]"
    using slice_last2_String_nat[OF n] by simp
  moreover have "nat (y mod 100) = nat y mod 100" using y by (simp add: nat_mod_distrib)
  moreover have "nat y mod 100 div 10 = (nat y div 10) mod 10"
    by (rule mod100_div10)
  then have "digit_char (nat y mod 100 div 10) = digit_char ((nat y div 10) mod 10)"
    by simp
  moreover have "digit_char (nat y mod 100 mod 10) = digit_char (nat y mod 10)"
    unfolding digit_char_def by (simp add: mod_mod_cancel)
  ultimately have "slice_last2 (String_int y) = two_digits y"
    by (simp add: two_digits_def)
  then show ?thesis
    unfolding getFinancialYear_def fiscalYear_def Let_def y_def by simp
qed

text \<open>
  Claim C6: for every date \<open>getFinancialYear\<close> returns FY followed by the last two
  digits of the financial year. The code for a date in June of the year 5: the last two
  characters of a one-digit numeral are one character and the result is \<open>FY5\<close>, where
  the two-digit form is \<open>FY05\<close>. The result does not have the form of FY and two digits
  that the description of the function states and that the schemas of the invoice
  series, the transactions and the filing locks require of a financial year, and the
  invoice number built from it is not one the transaction schema accepts.
\<close>

theorem C6_one_digit_year:
  "getFinancialYear \<lparr> getFullYear = 5, getMonth = 5, getDate = 1 \<rparr> = ''FY5''
   \<and> fiscalYear \<lparr> getFullYear = 5, getMonth = 5, getDate = 1 \<rparr> = ''FY05''
   \<and> \<not> match_FY (getFinancialYear \<lparr> getFullYear = 5, getMonth = 5, getDate = 1 \<rparr>)
   \<and> fst (generateInvoiceNumber \<lparr> getFullYear = 5, getMonth = 5, getDate = 1 \<rparr> [])
       = ''INV-FY5-00001''
   \<and> \<not> match_INV (fst (generateInvoiceNumber \<lparr> getFullYear = 5, getMonth = 5, getDate = 1 \<rparr> []))"
  by code_simp

text \<open>
  From the financial year 10 on the function is as the claim describes it: FY and the
  last two digits of the year, 31 March of a year \<open>Y\<close> falling in the financial year
  \<open>Y - 1\<close> and 1 April in \<open>Y\<close>; and both the filing-lock lookup \<open>isDateLocked\<close> and the
  invoice allocator \<open>generateInvoiceNumber\<close> key their lookup by this same function.
\<close>

lemma getFinancialYear_from_year_10:
  "(10 \<le> (if getMonth d + 1 \<ge> 4 then getFullYear d else getFullYear d - 1)
      \<longrightarrow> getFinancialYear d = fiscalYear d)
   \<and> (11 \<le> Y \<longrightarrow> getFinancialYear \<lparr> getFullYear = Y, getMonth = 2, getDate = 31 \<rparr>
                     = ''FY'' @ two_digits (Y - 1))
   \<and> (10 \<le> Y \<longrightarrow> getFinancialYear \<lparr> getFullYear = Y, getMonth = 3, getDate = 1 \<rparr>
                     = ''FY'' @ two_digits Y)
   \<and> (isDateLocked d locks \<longleftrightarrow>
        (\<exists>l \<in> set locks. lock_financialYear l = getFinancialYear d
             \<and> lock_month l = getMonth d + 1 \<and> lock_year l = getFullYear d \<and> isLocked l))
   \<and> generateInvoiceNumber d series = getNextInvoiceNumber (getFinancialYear d) series"
proof (intro conjI impI)
  assume "10 \<le> (if getMonth d + 1 \<ge> 4 then getFullYear d else getFullYear d - 1)"
  then show "getFinancialYear d = fiscalYear d" by (rule getFinancialYear_two_digits)
next
  assume "11 \<le> Y"
  then show "getFinancialYear \<lparr> getFullYear = Y, getMonth = 2, getDate = 31 \<rparr> = ''FY'' @ two_digits (Y - 1)"
    using getFinancialYear_two_digits[of "\<lparr> getFullYear = Y, getMonth = 2, getDate = 31 \<rparr>"]
    by (simp add: fiscalYear_def)
next
  assume "10 \<le> Y"
  then show "getFinancialYear \<lparr> getFullYear = Y, getMonth = 3, getDate = 1 \<rparr> = ''FY'' @ two_digits Y"
    using getFinancialYear_two_digits[of "\<lparr> getFullYear = Y, getMonth = 3, getDate = 1 \<rparr>"]
    by (simp add: fiscalYear_def)
next
  show "isDateLocked d locks \<longleftrightarrow>
        (\<exists>l \<in> set locks. lock_financialYear l = getFinancialYear d
             \<and> lock_month l = getMonth d + 1 \<and> lock_year l = getFullYear d \<and> isLocked l)"
    by (simp add: isDateLocked_def Let_def)
next
  show "generateInvoiceNumber d series = getNextInvoiceNumber (getFinancialYear d) series"
    by (simp add: generateInvoiceNumber_def)
qed

lemma financial_year_2024:
  "getFinancialYear \<lparr> getFullYear = 2024, getMonth = 2, getDate = 31 \<rparr> = ''FY23''
   \<and> getFinancialYear \<lparr> getFullYear = 2024, getMonth = 3, getDate = 1 \<rparr> = ''FY24''"
  by code_simp

section \<open>Invoice numbering\<close>

lemma update_first_None: "find P xs = None \<Longrightarrow> update_first P f xs = None"
  by (induction xs) (auto split: if_splits)

lemma update_first_Some:
  "find P xs = Some a \<Longrightarrow>
     \<exists>xs'. update_first P f xs = Some (f a, xs') \<and> length xs' = length xs
         \<and> (P (f a) \<longrightarrow> find P xs' = Some (f a))"
  by (induction xs) (auto split: if_splits)

lemma find_snoc_None: "find P xs = None \<Longrightarrow> find P (xs @ [d]) = (if P d then Some d else None)"
  by (induction xs) (auto split: if_splits)

lemma getNextInvoiceNumber_result:
  "fst (getNextInvoiceNumber fy series) =
     prefix_of fy series @ ''-'' @ fy @ ''-''
       @ padStart 5 (CHR ''0'') (String_nat (counter fy series + 1))
   \<and> counter fy (snd (getNextInvoiceNumber fy series)) = counter fy series + 1
   \<and> prefix_of fy (snd (getNextInvoiceNumber fy series)) = prefix_of fy series"
proof (cases "find (\<lambda>s. inv_financialYear s = fy) series")
  case None
  then show ?thesis
    by (simp add: getNextInvoiceNumber_def update_first_None counter_def prefix_of_def
        find_snoc_None Let_def)
next
  case (Some a)
  let ?f = "\<lambda>s. s\<lparr>lastSequenceNumber := lastSequenceNumber s + 1\<rparr>"
  from Some have "inv_financialYear a = fy" by (auto dest: find_Some_iff[THEN iffD1])
  then have P: "inv_financialYear (?f a) = fy" by simp
  from update_first_Some[OF Some, of ?f] P obtain xs' where
    u: "update_first (\<lambda>s. inv_financialYear s = fy) ?f series = Some (?f a, xs')"
    and f: "find (\<lambda>s. inv_financialYear s = fy) xs' = Some (?f a)" by auto
  show ?thesis
    using Some u f
    by (simp add: getNextInvoiceNumber_def counter_def prefix_of_def Let_def)
qed

lemma allocate_result:
  "fst (allocate n fy series) =
     map (\<lambda>k. prefix_of fy series @ ''-'' @ fy @ ''-'' @ padStart 5 (CHR ''0'') (String_nat k))
       [counter fy series + 1 ..< counter fy series + 1 + n]
   \<and> counter fy (snd (allocate n fy series)) = counter fy series + n"
proof (induction n arbitrary: series)
  case 0
  then show ?case by simp
next
  case (Suc n)
  obtain inv series' where g: "getNextInvoiceNumber fy series = (inv, series')"
    by (cases "getNextInvoiceNumber fy series")
  from getNextInvoiceNumber_result[of fy series] g
  have inv: "inv = prefix_of fy series @ ''-'' @ fy @ ''-''
                @ padStart 5 (CHR ''0'') (String_nat (counter fy series + 1))"
    and c: "counter fy series' = counter fy series + 1"
    and p: "prefix_of fy series' = prefix_of fy series" by simp_all
  obtain invs series'' where a: "allocate n fy series' = (invs, series'')"
    by (cases "allocate n fy series'")
  from Suc.IH[of series'] a c p
  have invs: "invs = map (\<lambda>k. prefix_of fy series @ ''-'' @ fy @ ''-'' @ padStart 5 (CHR ''0'') (String_nat k))
       [counter fy series + 2 ..< counter fy series + 2 + n]"
    and c': "counter fy series'' = counter fy series + 1 + n" by simp_all
  have "[counter fy series + 1 ..< counter fy series + 1 + Suc n]
          = (counter fy series + 1) # [counter fy series + 2 ..< counter fy series + 2 + n]"
    by (simp add: upt_rec)
  then show ?case using g a inv invs c' by simp
qed

lemma digit_val_digit_char: "digit_val (digit_char d) = d mod 10"
proof -
  have "\<forall>j \<in> {0 ..< 10 :: nat}. digit_val (''0123456789'' ! j) = j" by code_simp
  moreover have "d mod 10 \<in> {0 ..< 10}" by simp
  ultimately show ?thesis unfolding digit_char_def by blast
qed

lemma nat_of_digits_snoc: "nat_of_digits (s @ [c]) = 10 * nat_of_digits s + digit_val c"
  by (simp add: nat_of_digits_def)

lemma nat_of_digits_String_nat: "nat_of_digits (String_nat n) = n"
proof (induction n rule: String_nat.induct)
  case (1 n)
  show ?case
  proof (cases "n < 10")
    case True
    then show ?thesis
      by (subst String_nat.simps) (simp add: nat_of_digits_def digit_val_digit_char)
  next
    case False
    with 1 have "nat_of_digits (String_nat (n div 10)) = n div 10" by simp
    with False show ?thesis
      by (subst String_nat.simps) (simp add: nat_of_digits_snoc digit_val_digit_char)
  qed
qed

lemma nat_of_digits_zeros: "foldl (\<lambda>a c. 10 * a + digit_val c) 0 (replicate m (CHR ''0'')) = 0"
  by (induction m) (simp_all add: digit_val_def)

lemma nat_of_digits_padStart: "nat_of_digits (padStart w (CHR ''0'') (String_nat n)) = n"
  using nat_of_digits_String_nat[of n]
  by (simp add: padStart_def nat_of_digits_def nat_of_digits_zeros)

lemma invoice_numbers_distinct:
  "distinct (map (\<lambda>k. pre @ padStart 5 (CHR ''0'') (String_nat k)) [a ..< b])"
proof -
  have "inj_on (\<lambda>k. pre @ padStart 5 (CHR ''0'') (String_nat k)) (set [a ..< b])"
  proof (rule inj_onI)
    fix x y
    assume "pre @ padStart 5 (CHR ''0'') (String_nat x) = pre @ padStart 5 (CHR ''0'') (String_nat y)"
    then have "padStart 5 (CHR ''0'') (String_nat x) = padStart 5 (CHR ''0'') (String_nat y)" by simp
    then have "nat_of_digits (padStart 5 (CHR ''0'') (String_nat x))
                = nat_of_digits (padStart 5 (CHR ''0'') (String_nat y))" by simp
    then show "x = y" by (simp add: nat_of_digits_padStart)
  qed
  then show ?thesis by (simp add: distinct_map)
qed

text \<open>
  Claim C7: starting from a collection with no document for a financial year, \<open>n\<close>
  allocations one after the other yield the sequence numbers 1 to \<open>n\<close> in order, each
  one more than the one before, formatted as INV, the financial year and the number padded
  with zeros to five digits; the numbers issued are pairwise different and the stored
  counter ends at \<open>n\<close>. The witness is the example of the specification: two allocations
  in FY24 give INV-FY24-00001 and INV-FY24-00002.
\<close>

theorem C7_sequential_allocation:
  assumes "find (\<lambda>s. inv_financialYear s = fy) series = None"
  shows "fst (allocate n fy series) =
           map (\<lambda>k. ''INV'' @ ''-'' @ fy @ ''-'' @ padStart 5 (CHR ''0'') (String_nat k)) [1 ..< Suc n]
         \<and> distinct (fst (allocate n fy series))
         \<and> counter fy (snd (allocate n fy series)) = n"
proof -
  from assms have c: "counter fy series = 0" and p: "prefix_of fy series = ''INV''"
    by (simp_all add: counter_def prefix_of_def)
  have eq: "fst (allocate n fy series) =
           map (\<lambda>k. ''INV'' @ ''-'' @ fy @ ''-'' @ padStart 5 (CHR ''0'') (String_nat k)) [1 ..< Suc n]"
    using allocate_result[of n fy series] c p by simp
  have "distinct (map (\<lambda>k. ''INV'' @ ''-'' @ fy @ ''-'' @ padStart 5 (CHR ''0'') (String_nat k)) [1 ..< Suc n])"
    using invoice_numbers_distinct[of "''INV'' @ ''-'' @ fy @ ''-''" 1 "Suc n"]
    by (simp only: append_assoc)
  then have d: "distinct (fst (allocate n fy series))" by (simp only: eq)
  have cnt: "counter fy (snd (allocate n fy series)) = n"
    using allocate_result[of n fy series, THEN conjunct2] c by simp
  from eq d cnt show ?thesis by (intro conjI)
qed

theorem C7_sequential_allocation_witness:
  "find (\<lambda>s. inv_financialYear s = ''FY24'') [] = None
   \<and> fst (allocate 2 ''FY24'' []) = [''INV-FY24-00001'', ''INV-FY24-00002'']
   \<and> distinct (fst (allocate 2 ''FY24'' []))
   \<and> counter ''FY24'' (snd (allocate 2 ''FY24'' [])) = 2"
proof -
  have h: "find (\<lambda>s. inv_financialYear s = ''FY24'') [] = None" by simp
  have m: "map (\<lambda>k. ''INV'' @ ''-'' @ ''FY24'' @ ''-'' @ padStart 5 (CHR ''0'') (String_nat k)) [1 ..< Suc 2]
             = [''INV-FY24-00001'', ''INV-FY24-00002'']"
    by code_simp
  from C7_sequential_allocation[OF h, of 2] h m show ?thesis by simp
qed

lemma length_padStart: "length (padStart w c s) = max w (length s)"
  by (simp add: padStart_def)

lemma zeros_digits: "list_all is_digit (replicate m (CHR ''0''))"
  by (induction m) (simp_all add: is_digit_def)

lemma padStart_digits: "list_all is_digit (padStart w (CHR ''0'') (String_nat n))"
  by (simp add: padStart_def all_digits_String_nat zeros_digits)

lemma padStart_no_truncation: "w \<le> length s \<Longrightarrow> padStart w c s = s"
  by (simp add: padStart_def)

lemma length_sequence_le5: "length (padStart 5 (CHR ''0'') (String_nat n)) = 5 \<longleftrightarrow> n \<le> 99999"
proof -
  have "length (String_nat n) \<le> 5 \<longleftrightarrow> n < 10 ^ 5" by (rule length_String_nat) simp
  then show ?thesis by (auto simp: length_padStart)
qed

lemma match_INV_needs_5:
  assumes m: "match_INV (pre @ pad)" and d: "list_all is_digit pad" and l: "5 \<le> length pad"
    and h: "pre \<noteq> []" "last pre = CHR ''-''"
  shows "length pad = 5"
proof (rule ccontr)
  assume "length pad \<noteq> 5"
  with l have six: "6 \<le> length pad" by simp
  from m have len: "length pre + length pad = 14" and dash: "take 1 (drop 8 (pre @ pad)) = ''-''"
    by (simp_all add: match_INV_def)
  define j where "j = 8 - length pre"
  from six len have pre8: "length pre \<le> 8" and j: "j < length pad" by (simp_all add: j_def)
  have "drop 8 (pre @ pad) = drop j pad" using pre8 by (simp add: j_def)
  also have "\<dots> = pad ! j # drop (Suc j) pad" using j by (simp add: Cons_nth_drop_Suc)
  finally have "take 1 (drop 8 (pre @ pad)) = [pad ! j]" by simp
  with dash have "pad ! j = CHR ''-''" by simp
  moreover have "is_digit (pad ! j)" using d j by (simp add: list_all_length)
  ultimately show False by (simp add: is_digit_def)
qed

lemma match_FY_shape:
  assumes "match_FY fy"
  obtains a b where "fy = [CHR ''F'', CHR ''Y'', a, b]" "is_digit a" "is_digit b"
proof -
  from assms have "length fy = 4" by (simp add: match_FY_def)
  then obtain w x a b where fy: "fy = [w, x, a, b]"
    by (auto simp: length_Suc_conv numeral_eq_Suc)
  with assms have "w = CHR ''F''" "x = CHR ''Y''" "is_digit a" "is_digit b"
    by (simp_all add: match_FY_def numeral_eq_Suc)
  with fy that show ?thesis by blast
qed

lemma match_INV_format:
  assumes "match_FY fy"
  shows "match_INV (''INV'' @ ''-'' @ fy @ ''-'' @ pad) \<longleftrightarrow> length pad = 5 \<and> list_all is_digit pad"
proof -
  from assms obtain a b where "fy = [CHR ''F'', CHR ''Y'', a, b]" "is_digit a" "is_digit b"
    by (rule match_FY_shape)
  then show ?thesis by (auto simp: match_INV_def numeral_eq_Suc)
qed

text \<open>Evaluations at the date 10 June 2024, used by the witnesses.\<close>

lemma String_nat_100000: "String_nat 100000 = ''100000''"
  by (simp add: String_nat_small String_nat_step digit_char_def)

lemma getFinancialYear_2024_06: "getFinancialYear \<lparr> getFullYear = 2024, getMonth = 5, getDate = 10 \<rparr> = ''FY24''"
  by (simp add: getFinancialYear_def Let_def String_int_def String_nat_small String_nat_step slice_last2_def digit_char_def)

lemma generateInvoiceNumber_after_99999: "generateInvoiceNumber \<lparr> getFullYear = 2024, getMonth = 5, getDate = 10 \<rparr>
   [\<lparr> inv_financialYear = ''FY24'', lastSequenceNumber = 99999, inv_prefix = ''INV'' \<rparr>]
   = (''INV-FY24-100000'', [\<lparr> inv_financialYear = ''FY24'', lastSequenceNumber = 100000, inv_prefix = ''INV'' \<rparr>])"
  by (simp add: generateInvoiceNumber_def getNextInvoiceNumber_def Let_def getFinancialYear_2024_06 String_nat_100000 padStart_def)

lemma counter_100000: "counter ''FY24'' [\<lparr> inv_financialYear = ''FY24'', lastSequenceNumber = 100000, inv_prefix = ''INV'' \<rparr>] = 100000"
  by (simp add: counter_def)

lemma generateInvoiceNumber_first: "generateInvoiceNumber \<lparr> getFullYear = 2024, getMonth = 5, getDate = 10 \<rparr> []
   = (''INV-FY24-00001'', [\<lparr> inv_financialYear = ''FY24'', lastSequenceNumber = 1, inv_prefix = ''INV'' \<rparr>])"
  by code_simp

lemma match_FY_FY24: "match_FY ''FY24''" by (simp add: match_FY_def is_digit_def)
lemma match_INV_first: "match_INV ''INV-FY24-00001''" by (simp add: match_INV_def is_digit_def)

text \<open>
  Claim C10: the number \<open>generateInvoiceNumber\<close> returns matches the invoice format only
  while the year's counter after the increment is at most 99999 (and then it does match,
  the financial year being FY and two digits and the prefix INV); the padding never
  truncates, so from 100000 on the sequence part is the whole numeral, longer than five
  digits, and \<open>Transaction.create\<close> refuses a document carrying such a number with a
  validation error.
\<close>

theorem C10_format_up_to_99999:
  "(match_INV (fst (generateInvoiceNumber d series))
      \<longrightarrow> counter (getFinancialYear d) (snd (generateInvoiceNumber d series)) \<le> 99999)
   \<and> (match_FY (getFinancialYear d) \<and> prefix_of (getFinancialYear d) series = ''INV''
        \<and> counter (getFinancialYear d) (snd (generateInvoiceNumber d series)) \<le> 99999
      \<longrightarrow> match_INV (fst (generateInvoiceNumber d series)))
   \<and> (100000 \<le> counter (getFinancialYear d) (snd (generateInvoiceNumber d series))
      \<longrightarrow> fst (generateInvoiceNumber d series) =
            prefix_of (getFinancialYear d) series @ ''-'' @ getFinancialYear d @ ''-''
              @ String_nat (counter (getFinancialYear d) (snd (generateInvoiceNumber d series)))
          \<and> 5 < length (String_nat (counter (getFinancialYear d) (snd (generateInvoiceNumber d series))))
          \<and> Transaction_create (doc\<lparr>invoiceNumber := Some (fst (generateInvoiceNumber d series))\<rparr>) ts
              = Inl ValidationError)"
proof -
  define fy where "fy = getFinancialYear d"
  define k where "k = counter fy (snd (generateInvoiceNumber d series))"
  define pad where "pad = padStart 5 (CHR ''0'') (String_nat k)"
  define pre where "pre = prefix_of fy series @ ''-'' @ fy @ ''-''"
  have k: "k = counter fy series + 1"
    using getNextInvoiceNumber_result[of fy series] by (simp add: k_def generateInvoiceNumber_def fy_def)
  have inv: "fst (generateInvoiceNumber d series) = pre @ pad"
    using getNextInvoiceNumber_result[of fy series] k
    by (simp add: generateInvoiceNumber_def fy_def pre_def pad_def)
  have digits: "list_all is_digit pad" unfolding pad_def by (rule padStart_digits)
  have len5: "5 \<le> length pad" by (simp add: pad_def length_padStart)
  have pre: "pre \<noteq> []" "last pre = CHR ''-''" by (simp_all add: pre_def)
  have A: "match_INV (pre @ pad) \<longrightarrow> k \<le> 99999"
  proof
    assume "match_INV (pre @ pad)"
    then have "length pad = 5" using digits len5 pre by (rule match_INV_needs_5)
    then show "k \<le> 99999" by (simp add: pad_def length_sequence_le5)
  qed
  have B: "match_FY fy \<and> prefix_of fy series = ''INV'' \<and> k \<le> 99999 \<longrightarrow> match_INV (pre @ pad)"
  proof
    assume h: "match_FY fy \<and> prefix_of fy series = ''INV'' \<and> k \<le> 99999"
    then have l5: "length pad = 5" by (simp add: pad_def length_sequence_le5)
    from h have fy: "match_FY fy" by simp
    have "match_INV (''INV'' @ ''-'' @ fy @ ''-'' @ pad)"
      using match_INV_format[OF fy, of pad] l5 digits by blast
    with h show "match_INV (pre @ pad)" by (simp add: pre_def)
  qed
  have C: "100000 \<le> k \<longrightarrow> pre @ pad = pre @ String_nat k \<and> 5 < length (String_nat k)
             \<and> Transaction_create (doc\<lparr>invoiceNumber := Some (pre @ pad)\<rparr>) ts = Inl ValidationError"
  proof
    assume big: "100000 \<le> k"
    have "\<not> length (String_nat k) \<le> 5"
      using length_String_nat[of 5 k] big by simp
    then have long: "5 < length (String_nat k)" by simp
    then have same: "pad = String_nat k" by (simp add: pad_def padStart_no_truncation)
    have "\<not> match_INV (pre @ pad)" using A big by auto
    with pre(1) have "\<not> numbering_valid ((doc\<lparr>invoiceNumber := Some (pre @ pad)\<rparr>)\<lparr>remarks := trim (remarks doc)\<rparr>)"
      by (simp add: numbering_valid_def)
    then have "Transaction_create (doc\<lparr>invoiceNumber := Some (pre @ pad)\<rparr>) ts = Inl ValidationError"
      by (simp add: Transaction_create_def Let_def)
    with long same show "pre @ pad = pre @ String_nat k \<and> 5 < length (String_nat k)
             \<and> Transaction_create (doc\<lparr>invoiceNumber := Some (pre @ pad)\<rparr>) ts = Inl ValidationError"
      by simp
  qed
  have A': "match_INV (fst (generateInvoiceNumber d series)) \<longrightarrow> k \<le> 99999"
    using A by (simp only: inv)
  have B': "match_FY fy \<and> prefix_of fy series = ''INV'' \<and> k \<le> 99999
              \<longrightarrow> match_INV (fst (generateInvoiceNumber d series))"
    using B by (simp only: inv)
  have C': "100000 \<le> k \<longrightarrow>
              fst (generateInvoiceNumber d series)
                = prefix_of fy series @ ''-'' @ fy @ ''-'' @ String_nat k
              \<and> 5 < length (String_nat k)
              \<and> Transaction_create (doc\<lparr>invoiceNumber := Some (fst (generateInvoiceNumber d series))\<rparr>) ts
                  = Inl ValidationError"
    using C by (simp only: inv pre_def append_assoc)
  show ?thesis
    unfolding fy_def[symmetric] k_def[symmetric] using A' B' C' by blast
qed

theorem C10_format_up_to_99999_witness:
  "match_FY (getFinancialYear \<lparr> getFullYear = 2024, getMonth = 5, getDate = 10 \<rparr>)
   \<and> match_INV (fst (generateInvoiceNumber \<lparr> getFullYear = 2024, getMonth = 5, getDate = 10 \<rparr> []))
   \<and> counter ''FY24'' (snd (generateInvoiceNumber \<lparr> getFullYear = 2024, getMonth = 5, getDate = 10 \<rparr> [])) \<le> 99999
   \<and> fst (generateInvoiceNumber \<lparr> getFullYear = 2024, getMonth = 5, getDate = 10 \<rparr>
           [\<lparr> inv_financialYear = ''FY24'', lastSequenceNumber = 99999, inv_prefix = ''INV'' \<rparr>])
       = ''INV-FY24-100000''
   \<and> Transaction_create
        \<lparr> commissionAmount = Fin 100, gstAmount = Fin 18, netIncome = Fin 82, returnAmount = Fin 9900,
          tid = 1, date = \<lparr> getFullYear = 2024, getMonth = 5, getDate = 10 \<rparr>,
          totalReceived = Fin 10000, commissionPercent = Fin 1, paymentMode = ''QR'',
          createdBy = 7, remarks = [], invoiceNumber = Some ''INV-FY24-100000'',
          financialYear = Some ''FY24'' \<rparr> []
       = Inl ValidationError"
proof -
  let ?d = "\<lparr> getFullYear = 2024, getMonth = 5, getDate = 10 \<rparr>"
  let ?big = "[\<lparr> inv_financialYear = ''FY24'', lastSequenceNumber = 99999, inv_prefix = ''INV'' \<rparr>]"
  let ?doc = "\<lparr> commissionAmount = Fin 100, gstAmount = Fin 18, netIncome = Fin 82, returnAmount = Fin 9900,
          tid = 1, date = ?d, totalReceived = Fin 10000, commissionPercent = Fin 1, paymentMode = ''QR'',
          createdBy = 7, remarks = [], invoiceNumber = None, financialYear = Some ''FY24'' \<rparr>"
  have small: "match_FY (getFinancialYear ?d) \<and> prefix_of (getFinancialYear ?d) [] = ''INV''
      \<and> counter (getFinancialYear ?d) (snd (generateInvoiceNumber ?d [])) \<le> 99999"
    by (simp add: getFinancialYear_2024_06 generateInvoiceNumber_first match_FY_FY24 prefix_of_def counter_def)
  have big: "100000 \<le> counter (getFinancialYear ?d) (snd (generateInvoiceNumber ?d ?big))"
    by (simp add: getFinancialYear_2024_06 generateInvoiceNumber_after_99999 counter_100000)
  note A = C10_format_up_to_99999[where d = ?d and series = "[]" and doc = ?doc and ts = "[]"]
  note B = C10_format_up_to_99999[where d = ?d and series = ?big and doc = ?doc and ts = "[]"]
  from A[THEN conjunct2, THEN conjunct1, rule_format, OF small]
  have m: "match_INV (fst (generateInvoiceNumber ?d []))" .
  from A[THEN conjunct1, rule_format, OF m]
  have c: "counter (getFinancialYear ?d) (snd (generateInvoiceNumber ?d [])) \<le> 99999" .
  from B[THEN conjunct2, THEN conjunct2, rule_format, OF big, THEN conjunct2, THEN conjunct2]
  have r: "Transaction_create (?doc\<lparr>invoiceNumber := Some (fst (generateInvoiceNumber ?d ?big))\<rparr>) []
             = Inl ValidationError" .
  from small m c r show ?thesis by (simp add: getFinancialYear_2024_06 generateInvoiceNumber_after_99999)
qed

section \<open>Creating transactions at the boundary percentages\<close>









lemma calculateCommission_100_full:
  "calculateCommission (Fin 100) (Fin 100) (Fin 18) =
     Inr \<lparr> commissionAmount = Fin 100, gstAmount = Fin 18, netIncome = Fin 82, returnAmount = Fin 0 \<rparr>"
proof -
  have s1: "js_mul (Fin 100) (Fin 100) = Fin 10000"
    using fl_eqI[of "13" "10000" "5497558138880000"] by (simp add: pow2_def)
  have s2: "js_div (Fin 10000) (Fin 100) = Fin 100"
    using fl_eqI[of "6" "100" "7036874417766400"] by (simp add: pow2_def)
  have s3: "js_mul (Fin 100) (Fin 18) = Fin 1800"
    using fl_eqI[of "10" "1800" "7916483719987200"] by (simp add: pow2_def)
  have s4: "js_div (Fin 1800) (Fin 100) = Fin 18"
    using fl_eqI[of "4" "18" "5066549580791808"] by (simp add: pow2_def)
  have s5: "js_sub (Fin 100) (Fin 18) = Fin 82"
    using fl_eqI[of "6" "82" "5770237022568448"] by (simp add: pow2_def js_sub_def)
  have s6: "js_sub (Fin 100) (Fin 100) = Fin 0"
    by (simp add: fl_zero js_sub_def)
  have s7: "Math_round (Fin 10000) = Fin 10000"
    using Math_round_eqI[of "10000" "10000"] by simp
  have s8: "js_mul (Fin 18) (Fin 100) = Fin 1800"
    using fl_eqI[of "10" "1800" "7916483719987200"] by (simp add: pow2_def)
  have s9: "Math_round (Fin 1800) = Fin 1800"
    using Math_round_eqI[of "1800" "1800"] by simp
  have s10: "js_mul (Fin 82) (Fin 100) = Fin 8200"
    using fl_eqI[of "13" "8200" "4507997673881600"] by (simp add: pow2_def)
  have s11: "Math_round (Fin 8200) = Fin 8200"
    using Math_round_eqI[of "8200" "8200"] by simp
  have s12: "js_div (Fin 8200) (Fin 100) = Fin 82"
    using fl_eqI[of "6" "82" "5770237022568448"] by (simp add: pow2_def)
  have s13: "js_mul (Fin 0) (Fin 100) = Fin 0"
    by (simp add: fl_zero)
  have s14: "Math_round (Fin 0) = Fin 0"
    using Math_round_eqI[of "0" "0"] by simp
  have s15: "js_div (Fin 0) (Fin 100) = Fin 0"
    by (simp add: fl_zero)
  show ?thesis
    by (simp add: calculateCommission_def Let_def js_le_def js_gt_def s1 s2 s3 s4 s5 s6 s7 s8 s9 s10 s11 s12 s13 s14 s15
        del: js_mul.simps js_div.simps js_add.simps Math_round.simps)
qed

lemma validateCalculations_100_full:
  "validateCalculations (Fin 100)
       \<lparr> commissionAmount = Fin 100, gstAmount = Fin 18, netIncome = Fin 82, returnAmount = Fin 0 \<rparr>"
proof -
  have s1: "fl (1 / 100) = Fin (5764607523034235 / 576460752303423488)"
    using fl_eqI[of "(- 7)" "1 / 100" "5764607523034235"] by (simp add: pow2_def)
  have s2: "js_add (Fin 100) (Fin 0) = Fin 100"
    using fl_eqI[of "6" "100" "7036874417766400"] by (simp add: pow2_def)
  have s3: "js_sub (Fin 100) (Fin 100) = Fin 0"
    by (simp add: fl_zero js_sub_def)
  have s4: "js_sub (Fin 100) (Fin 18) = Fin 82"
    using fl_eqI[of "6" "82" "5770237022568448"] by (simp add: pow2_def js_sub_def)
  have s5: "js_sub (Fin 82) (Fin 82) = Fin 0"
    by (simp add: fl_zero js_sub_def)
  show ?thesis
    by (simp add: validateCalculations_def Let_def s1 s2 s3 s4 s5
        del: js_mul.simps js_div.simps js_add.simps Math_round.simps)
qed


text \<open>
  The strict equality holds of no string: a total sent as the string \<^verbatim>\<open>"100"\<close>, which the
  arithmetic converts, is created at 100 percent as well.
\<close>

lemma createTransaction_string_total_full_percent:
  "fst (createTransaction
         \<lparr> GST_RATE = Fin 18, DEFAULT_COMMISSION_PERCENT = Fin 1,
           clock = \<lparr> getFullYear = 2024, getMonth = 5, getDate = 10 \<rparr> \<rparr>
         \<lparr> req_date = None, req_totalReceived = JsonString (Fin 100), req_commissionPercent = Some (Fin 100),
           req_paymentMode = None, req_remarks = None, req_user = 7 \<rparr>
         \<lparr> transactions = [], invoiceNumbers = [], filingLocks = [], auditLogs = [], nextId = 0 \<rparr>)
   = Inr \<lparr> commissionAmount = Fin 100, gstAmount = Fin 18, netIncome = Fin 82, returnAmount = Fin 0,
           tid = 0, date = \<lparr> getFullYear = 2024, getMonth = 5, getDate = 10 \<rparr>,
           totalReceived = Fin 100, commissionPercent = Fin 100, paymentMode = ''QR'',
           createdBy = 7, remarks = [], invoiceNumber = Some ''INV-FY24-00001'',
           financialYear = Some ''FY24'' \<rparr>"
  by (simp add: createTransaction_def Let_def commissionPercentValue_def gstRate_of_def
        truthy_def generateInvoiceNumber_first getFinancialYear_2024_06 match_FY_FY24 match_INV_first
        validateTransactionForGST_def js_le_def strict_eq_def Transaction_create_def
        amounts_valid_def numbering_valid_def fl_cent trim_def
      calculateCommission_100_full validateCalculations_100_full)





section \<open>The filing lock on the mutating routes\<close>

lemma createTransaction_locks_irrelevant:
  "createTransaction e req (st\<lparr>filingLocks := L\<rparr>)
     = (fst (createTransaction e req st), (snd (createTransaction e req st))\<lparr>filingLocks := L\<rparr>)"
  by (simp add: createTransaction_def Let_def split_beta split: sum.splits)

lemma checkFilingLock_locked:
  assumes "find (\<lambda>t. tid t = i) (transactions st) = Some t"
    and "isDateLocked (date t) (filingLocks st)"
  shows "fst (checkFilingLock e u (Some i) bd st) = Some FilingLocked
         \<and> transactions (snd (checkFilingLock e u (Some i) bd st)) = transactions st"
  using assms by (simp add: checkFilingLock_def)

text \<open>
  What the routes do with the lock: the outcome of the create route is the same whatever
  the lock collection holds, while the update and delete routes answer \<open>FilingLocked\<close>
  and leave the transactions as they were when the stored transaction's date is locked.
\<close>

lemma guard_on_update_and_delete_only:
  "route_post e req (st\<lparr>filingLocks := L\<rparr>)
     = (fst (route_post e req st), (snd (route_post e req st))\<lparr>filingLocks := L\<rparr>)
   \<and> (find (\<lambda>t. tid t = i) (transactions st) = Some t \<and> isDateLocked (date t) (filingLocks st)
        \<longrightarrow> fst (route_put e i ureq st) = Inl FilingLocked
            \<and> transactions (snd (route_put e i ureq st)) = transactions st
            \<and> fst (route_delete e u i st) = Some FilingLocked
            \<and> transactions (snd (route_delete e u i st)) = transactions st)"
proof (intro conjI impI)
  show "route_post e req (st\<lparr>filingLocks := L\<rparr>)
     = (fst (route_post e req st), (snd (route_post e req st))\<lparr>filingLocks := L\<rparr>)"
    unfolding route_post_def by (rule createTransaction_locks_irrelevant)
next
  assume h: "find (\<lambda>t. tid t = i) (transactions st) = Some t \<and> isDateLocked (date t) (filingLocks st)"
  then have c: "fst (checkFilingLock e (upd_user ureq) (Some i) (upd_date ureq) st) = Some FilingLocked"
      "transactions (snd (checkFilingLock e (upd_user ureq) (Some i) (upd_date ureq) st)) = transactions st"
    using checkFilingLock_locked[of i st t e "upd_user ureq" "upd_date ureq"] by simp_all
  from h have d: "fst (checkFilingLock e u (Some i) None st) = Some FilingLocked"
      "transactions (snd (checkFilingLock e u (Some i) None st)) = transactions st"
    using checkFilingLock_locked[of i st t e u None] by simp_all
  show "fst (route_put e i ureq st) = Inl FilingLocked" using c by (simp add: route_put_def split_beta)
  show "transactions (snd (route_put e i ureq st)) = transactions st" using c by (simp add: route_put_def split_beta)
  show "fst (route_delete e u i st) = Some FilingLocked" using d by (simp add: route_delete_def split_beta)
  show "transactions (snd (route_delete e u i st)) = transactions st" using d by (simp add: route_delete_def split_beta)
qed

text \<open>
  Claim C1: a create whose date falls in a locked period is refused with \<open>FilingLocked\<close>
  and nothing is persisted, the guard being consulted on create as on update and delete.
  The code at the input of the claim: with January 2024 locked, a create dated
  15 January 2024 is answered with the created transaction, invoice number included.
  The guard \<open>checkFilingLock\<close> has a branch for create requests, and the update and
  delete routes mount it; the create route does not.
\<close>

theorem C1_create_in_locked_period_persists:
  "isDateLocked \<lparr> getFullYear = 2024, getMonth = 0, getDate = 15 \<rparr>
     [\<lparr> lock_id = 0, lock_financialYear = ''FY23'', lock_month = 1, lock_year = 2024,
        lockedAt = \<lparr> getFullYear = 2024, getMonth = 1, getDate = 20 \<rparr>, lockedBy = 7,
        filingPeriod = ''FY23-01'', gstr1FilingDate = None, gstr3BFilingDate = None,
        lock_remarks = [], isLocked = True \<rparr>]
   \<and> fst (route_post
         \<lparr> GST_RATE = Fin 18, DEFAULT_COMMISSION_PERCENT = Fin 1,
           clock = \<lparr> getFullYear = 2024, getMonth = 5, getDate = 10 \<rparr> \<rparr>
         \<lparr> req_date = Some \<lparr> getFullYear = 2024, getMonth = 0, getDate = 15 \<rparr>,
           req_totalReceived = JsonNumber (Fin 10000), req_commissionPercent = Some (Fin 1),
           req_paymentMode = None, req_remarks = None, req_user = 7 \<rparr>
         \<lparr> transactions = [], invoiceNumbers = [],
           filingLocks =
             [\<lparr> lock_id = 0, lock_financialYear = ''FY23'', lock_month = 1, lock_year = 2024,
                lockedAt = \<lparr> getFullYear = 2024, getMonth = 1, getDate = 20 \<rparr>, lockedBy = 7,
                filingPeriod = ''FY23-01'', gstr1FilingDate = None, gstr3BFilingDate = None,
                lock_remarks = [], isLocked = True \<rparr>],
           auditLogs = [], nextId = 1 \<rparr>)
     = Inr \<lparr> commissionAmount = Fin 100, gstAmount = Fin 18, netIncome = Fin 82,
             returnAmount = Fin 9900,
             tid = 1, date = \<lparr> getFullYear = 2024, getMonth = 0, getDate = 15 \<rparr>,
             totalReceived = Fin 10000, commissionPercent = Fin 1, paymentMode = ''QR'',
             createdBy = 7, remarks = [], invoiceNumber = Some ''INV-FY23-00001'',
             financialYear = Some ''FY23'' \<rparr>"
proof (rule conjI)
  show "isDateLocked \<lparr> getFullYear = 2024, getMonth = 0, getDate = 15 \<rparr>
     [\<lparr> lock_id = 0, lock_financialYear = ''FY23'', lock_month = 1, lock_year = 2024,
        lockedAt = \<lparr> getFullYear = 2024, getMonth = 1, getDate = 20 \<rparr>, lockedBy = 7,
        filingPeriod = ''FY23-01'', gstr1FilingDate = None, gstr3BFilingDate = None,
        lock_remarks = [], isLocked = True \<rparr>]"
    by code_simp
next
  have inv: "generateInvoiceNumber \<lparr> getFullYear = 2024, getMonth = 0, getDate = 15 \<rparr> []
      = (''INV-FY23-00001'',
         [\<lparr> inv_financialYear = ''FY23'', lastSequenceNumber = 1, inv_prefix = ''INV'' \<rparr>])"
    by code_simp
  have fy: "getFinancialYear \<lparr> getFullYear = 2024, getMonth = 0, getDate = 15 \<rparr> = ''FY23''"
    by code_simp
  have m: "match_FY ''FY23''" "match_INV ''INV-FY23-00001''"
    by (simp_all add: match_FY_def match_INV_def is_digit_def)
  show "fst (route_post
         \<lparr> GST_RATE = Fin 18, DEFAULT_COMMISSION_PERCENT = Fin 1,
           clock = \<lparr> getFullYear = 2024, getMonth = 5, getDate = 10 \<rparr> \<rparr>
         \<lparr> req_date = Some \<lparr> getFullYear = 2024, getMonth = 0, getDate = 15 \<rparr>,
           req_totalReceived = JsonNumber (Fin 10000), req_commissionPercent = Some (Fin 1),
           req_paymentMode = None, req_remarks = None, req_user = 7 \<rparr>
         \<lparr> transactions = [], invoiceNumbers = [],
           filingLocks =
             [\<lparr> lock_id = 0, lock_financialYear = ''FY23'', lock_month = 1, lock_year = 2024,
                lockedAt = \<lparr> getFullYear = 2024, getMonth = 1, getDate = 20 \<rparr>, lockedBy = 7,
                filingPeriod = ''FY23-01'', gstr1FilingDate = None, gstr3BFilingDate = None,
                lock_remarks = [], isLocked = True \<rparr>],
           auditLogs = [], nextId = 1 \<rparr>)
     = Inr \<lparr> commissionAmount = Fin 100, gstAmount = Fin 18, netIncome = Fin 82,
             returnAmount = Fin 9900,
             tid = 1, date = \<lparr> getFullYear = 2024, getMonth = 0, getDate = 15 \<rparr>,
             totalReceived = Fin 10000, commissionPercent = Fin 1, paymentMode = ''QR'',
             createdBy = 7, remarks = [], invoiceNumber = Some ''INV-FY23-00001'',
             financialYear = Some ''FY23'' \<rparr>"
    by (simp add: route_post_def createTransaction_def Let_def commissionPercentValue_def
        gstRate_of_def truthy_def calculateCommission_10000 validateCalculations_10000
        inv fy m validateTransactionForGST_def js_le_def strict_eq_def Transaction_create_def
        amounts_valid_def numbering_valid_def fl_cent trim_def)
qed

section \<open>Locking a period twice\<close>







section \<open>Created transactions and the batch validator\<close>

lemma calculateCommission_10000_at_5:
  "calculateCommission (Fin 10000) (Fin 1) (Fin 5) =
     Inr \<lparr> commissionAmount = Fin 100, gstAmount = Fin 5, netIncome = Fin 95, returnAmount = Fin 9900 \<rparr>"
proof -
  have s1: "js_mul (Fin 10000) (Fin 1) = Fin 10000"
    using fl_eqI[of "13" "10000" "5497558138880000"] by (simp add: pow2_def)
  have s2: "js_div (Fin 10000) (Fin 100) = Fin 100"
    using fl_eqI[of "6" "100" "7036874417766400"] by (simp add: pow2_def)
  have s3: "js_mul (Fin 100) (Fin 5) = Fin 500"
    using fl_eqI[of "8" "500" "8796093022208000"] by (simp add: pow2_def)
  have s4: "js_div (Fin 500) (Fin 100) = Fin 5"
    using fl_eqI[of "2" "5" "5629499534213120"] by (simp add: pow2_def)
  have s5: "js_sub (Fin 100) (Fin 5) = Fin 95"
    using fl_eqI[of "6" "95" "6685030696878080"] by (simp add: pow2_def js_sub_def)
  have s6: "js_sub (Fin 10000) (Fin 100) = Fin 9900"
    using fl_eqI[of "13" "9900" "5442582557491200"] by (simp add: pow2_def js_sub_def)
  have s7: "js_mul (Fin 100) (Fin 100) = Fin 10000"
    using fl_eqI[of "13" "10000" "5497558138880000"] by (simp add: pow2_def)
  have s8: "Math_round (Fin 10000) = Fin 10000"
    using Math_round_eqI[of "10000" "10000"] by simp
  have s9: "js_mul (Fin 5) (Fin 100) = Fin 500"
    using fl_eqI[of "8" "500" "8796093022208000"] by (simp add: pow2_def)
  have s10: "Math_round (Fin 500) = Fin 500"
    using Math_round_eqI[of "500" "500"] by simp
  have s11: "js_mul (Fin 95) (Fin 100) = Fin 9500"
    using fl_eqI[of "13" "9500" "5222680231936000"] by (simp add: pow2_def)
  have s12: "Math_round (Fin 9500) = Fin 9500"
    using Math_round_eqI[of "9500" "9500"] by simp
  have s13: "js_div (Fin 9500) (Fin 100) = Fin 95"
    using fl_eqI[of "6" "95" "6685030696878080"] by (simp add: pow2_def)
  have s14: "js_mul (Fin 9900) (Fin 100) = Fin 990000"
    using fl_eqI[of "19" "990000" "8504035246080000"] by (simp add: pow2_def)
  have s15: "Math_round (Fin 990000) = Fin 990000"
    using Math_round_eqI[of "990000" "990000"] by simp
  have s16: "js_div (Fin 990000) (Fin 100) = Fin 9900"
    using fl_eqI[of "13" "9900" "5442582557491200"] by (simp add: pow2_def)
  show ?thesis
    by (simp add: calculateCommission_def Let_def js_le_def js_gt_def s1 s2 s3 s4 s5 s6 s7 s8 s9 s10 s11 s12 s13 s14 s15 s16
        del: js_mul.simps js_div.simps js_add.simps Math_round.simps)
qed

lemma validateCalculations_10000_at_5:
  "validateCalculations (Fin 10000)
       \<lparr> commissionAmount = Fin 100, gstAmount = Fin 5, netIncome = Fin 95, returnAmount = Fin 9900 \<rparr>"
proof -
  have s1: "fl (1 / 100) = Fin (5764607523034235 / 576460752303423488)"
    using fl_eqI[of "(- 7)" "1 / 100" "5764607523034235"] by (simp add: pow2_def)
  have s2: "js_add (Fin 100) (Fin 9900) = Fin 10000"
    using fl_eqI[of "13" "10000" "5497558138880000"] by (simp add: pow2_def)
  have s3: "js_sub (Fin 10000) (Fin 10000) = Fin 0"
    by (simp add: fl_zero js_sub_def)
  have s4: "js_sub (Fin 100) (Fin 5) = Fin 95"
    using fl_eqI[of "6" "95" "6685030696878080"] by (simp add: pow2_def js_sub_def)
  have s5: "js_sub (Fin 95) (Fin 95) = Fin 0"
    by (simp add: fl_zero js_sub_def)
  show ?thesis
    by (simp add: validateCalculations_def Let_def s1 s2 s3 s4 s5
        del: js_mul.simps js_div.simps js_add.simps Math_round.simps)
qed

text \<open>
  Claim C3 (validator symmetry): under any configured GST rate a transaction created by
  \<open>createTransaction\<close> passes \<open>validateGSTCompliance\<close> with no error. The code at a
  configured rate of 5 percent: the create succeeds with a GST of 5.00 on a commission of
  100.00, and the validator, which compares with 0.18 times the commission, reports an
  error on \<open>gstAmount\<close> and an invalid batch.
\<close>

theorem C3_created_at_5_percent_fails_validation:
  "createTransaction
     \<lparr> GST_RATE = Fin 5, DEFAULT_COMMISSION_PERCENT = Fin 1,
       clock = \<lparr> getFullYear = 2024, getMonth = 5, getDate = 10 \<rparr> \<rparr>
     \<lparr> req_date = None, req_totalReceived = JsonNumber (Fin 10000), req_commissionPercent = Some (Fin 1),
       req_paymentMode = None, req_remarks = None, req_user = 7 \<rparr>
     \<lparr> transactions = [], invoiceNumbers = [], filingLocks = [], auditLogs = [], nextId = 0 \<rparr>
   = (Inr \<lparr> commissionAmount = Fin 100, gstAmount = Fin 5, netIncome = Fin 95,
              returnAmount = Fin 9900,
              tid = 0, date = \<lparr> getFullYear = 2024, getMonth = 5, getDate = 10 \<rparr>,
              totalReceived = Fin 10000, commissionPercent = Fin 1, paymentMode = ''QR'',
              createdBy = 7, remarks = [], invoiceNumber = Some ''INV-FY24-00001'',
              financialYear = Some ''FY24'' \<rparr>,
      \<lparr> transactions =
          [\<lparr> commissionAmount = Fin 100, gstAmount = Fin 5, netIncome = Fin 95,
             returnAmount = Fin 9900,
             tid = 0, date = \<lparr> getFullYear = 2024, getMonth = 5, getDate = 10 \<rparr>,
             totalReceived = Fin 10000, commissionPercent = Fin 1, paymentMode = ''QR'',
             createdBy = 7, remarks = [], invoiceNumber = Some ''INV-FY24-00001'',
             financialYear = Some ''FY24'' \<rparr>],
        invoiceNumbers =
          [\<lparr> inv_financialYear = ''FY24'', lastSequenceNumber = 1, inv_prefix = ''INV'' \<rparr>],
        filingLocks = [],
        auditLogs = [\<lparr> action = TRANSACTION_CREATED, performedBy = 7, entityId = Some 0,
                       status = SUCCESS \<rparr>],
        nextId = 1 \<rparr>)
   \<and> validateGSTCompliance
         [\<lparr> commissionAmount = Fin 100, gstAmount = Fin 5, netIncome = Fin 95,
            returnAmount = Fin 9900,
            tid = 0, date = \<lparr> getFullYear = 2024, getMonth = 5, getDate = 10 \<rparr>,
            totalReceived = Fin 10000, commissionPercent = Fin 1, paymentMode = ''QR'',
            createdBy = 7, remarks = [], invoiceNumber = Some ''INV-FY24-00001'',
            financialYear = Some ''FY24'' \<rparr>]
     = \<lparr> isValid = False,
         errors = [\<lparr> transactionIndex = 0, transactionId = 0, field = ''gstAmount'' \<rparr>],
         warnings = [], totalTransactions = 1, validTransactions = 0,
         errorCount = 1, warningCount = 0 \<rparr>"
proof (rule conjI)
  show "createTransaction
     \<lparr> GST_RATE = Fin 5, DEFAULT_COMMISSION_PERCENT = Fin 1,
       clock = \<lparr> getFullYear = 2024, getMonth = 5, getDate = 10 \<rparr> \<rparr>
     \<lparr> req_date = None, req_totalReceived = JsonNumber (Fin 10000), req_commissionPercent = Some (Fin 1),
       req_paymentMode = None, req_remarks = None, req_user = 7 \<rparr>
     \<lparr> transactions = [], invoiceNumbers = [], filingLocks = [], auditLogs = [], nextId = 0 \<rparr>
   = (Inr \<lparr> commissionAmount = Fin 100, gstAmount = Fin 5, netIncome = Fin 95,
              returnAmount = Fin 9900,
              tid = 0, date = \<lparr> getFullYear = 2024, getMonth = 5, getDate = 10 \<rparr>,
              totalReceived = Fin 10000, commissionPercent = Fin 1, paymentMode = ''QR'',
              createdBy = 7, remarks = [], invoiceNumber = Some ''INV-FY24-00001'',
              financialYear = Some ''FY24'' \<rparr>,
      \<lparr> transactions =
          [\<lparr> commissionAmount = Fin 100, gstAmount = Fin 5, netIncome = Fin 95,
             returnAmount = Fin 9900,
             tid = 0, date = \<lparr> getFullYear = 2024, getMonth = 5, getDate = 10 \<rparr>,
             totalReceived = Fin 10000, commissionPercent = Fin 1, paymentMode = ''QR'',
             createdBy = 7, remarks = [], invoiceNumber = Some ''INV-FY24-00001'',
             financialYear = Some ''FY24'' \<rparr>],
        invoiceNumbers =
          [\<lparr> inv_financialYear = ''FY24'', lastSequenceNumber = 1, inv_prefix = ''INV'' \<rparr>],
        filingLocks = [],
        auditLogs = [\<lparr> action = TRANSACTION_CREATED, performedBy = 7, entityId = Some 0,
                       status = SUCCESS \<rparr>],
        nextId = 1 \<rparr>)"
    by (simp add: createTransaction_def Let_def commissionPercentValue_def gstRate_of_def
        truthy_def generateInvoiceNumber_first getFinancialYear_2024_06 match_FY_FY24 match_INV_first
        validateTransactionForGST_def js_le_def strict_eq_def Transaction_create_def
        amounts_valid_def numbering_valid_def fl_cent trim_def
        calculateCommission_10000_at_5 validateCalculations_10000_at_5)
next
  have s1: "fl (9 / 50) = Fin (3242591731706757 / 18014398509481984)"
    using fl_eqI[of "(- 3)" "9 / 50" "6485183463413514"] by (simp add: pow2_def)
  have s2: "fl (1 / 100) = Fin (5764607523034235 / 576460752303423488)"
    using fl_eqI[of "(- 7)" "1 / 100" "5764607523034235"] by (simp add: pow2_def)
  have s3: "js_mul (Fin 100) (Fin (3242591731706757 / 18014398509481984)) = Fin 18"
    using fl_eqI[of "4" "81064793292668925 / 4503599627370496" "5066549580791808"] by (simp add: pow2_def)
  have s4: "js_sub (Fin 5) (Fin 18) = Fin (- 13)"
    using fl_eqI_neg[of "3" "13" "7318349394477056"] by (simp add: pow2_def js_sub_def)
  have s5: "js_sub (Fin 10000) (Fin 100) = Fin 9900"
    using fl_eqI[of "13" "9900" "5442582557491200"] by (simp add: pow2_def js_sub_def)
  have s6: "js_sub (Fin 100) (Fin 5) = Fin 95"
    using fl_eqI[of "6" "95" "6685030696878080"] by (simp add: pow2_def js_sub_def)
  have s7: "js_sub (Fin 95) (Fin 95) = Fin 0"
    by (simp add: fl_zero js_sub_def)
  have s8: "js_sub (Fin 9900) (Fin 9900) = Fin 0"
    by (simp add: fl_zero js_sub_def)
  show "validateGSTCompliance
         [\<lparr> commissionAmount = Fin 100, gstAmount = Fin 5, netIncome = Fin 95,
            returnAmount = Fin 9900,
            tid = 0, date = \<lparr> getFullYear = 2024, getMonth = 5, getDate = 10 \<rparr>,
            totalReceived = Fin 10000, commissionPercent = Fin 1, paymentMode = ''QR'',
            createdBy = 7, remarks = [], invoiceNumber = Some ''INV-FY24-00001'',
            financialYear = Some ''FY24'' \<rparr>]
     = \<lparr> isValid = False,
         errors = [\<lparr> transactionIndex = 0, transactionId = 0, field = ''gstAmount'' \<rparr>],
         warnings = [], totalTransactions = 1, validTransactions = 0,
         errorCount = 1, warningCount = 0 \<rparr>"
    by (simp add: validateGSTCompliance_def checkTransaction_def Let_def truthy_def js_le_def
        js_gt_def s1 s2 s3 s4 s5 s6 s7 s8
        del: js_mul.simps js_div.simps js_add.simps Math_round.simps)
qed

lemma calculateCommission_515_50:
  "calculateCommission (Fin (1031 / 2)) (Fin 1) (Fin 18) =
     Inr \<lparr> commissionAmount = Fin (1452410879826985 / 281474976710656), gstAmount = Fin (8376695306909123 / 9007199254740992), netIncome = Fin (1190639151486075 / 281474976710656), returnAmount = Fin (4489086073883853 / 8796093022208) \<rparr>"
proof -
  have s1: "js_mul (Fin (1031 / 2)) (Fin 1) = Fin (1031 / 2)"
    using fl_eqI[of "9" "1031 / 2" "4534385952948224"] by (simp add: pow2_def)
  have s2: "js_div (Fin (1031 / 2)) (Fin 100) = Fin (5804014019773727 / 1125899906842624)"
    using fl_eqI[of "2" "1031 / 200" "5804014019773727"] by (simp add: pow2_def)
  have s3: "js_mul (Fin (5804014019773727 / 1125899906842624)) (Fin 18) = Fin (6529515772245443 / 70368744177664)"
    using fl_eqI[of "6" "52236126177963543 / 562949953421312" "6529515772245443"] by (simp add: pow2_def)
  have s4: "js_div (Fin (6529515772245443 / 70368744177664)) (Fin 100) = Fin (8357780188474167 / 9007199254740992)"
    using fl_eqI[of "(- 1)" "6529515772245443 / 7036874417766400" "8357780188474167"] by (simp add: pow2_def)
  have s5: "js_sub (Fin (5804014019773727 / 1125899906842624)) (Fin (8357780188474167 / 9007199254740992)) = Fin (594911437026807 / 140737488355328)"
    using fl_eqI[of "2" "38074331969715649 / 9007199254740992" "4759291496214456"] by (simp add: pow2_def js_sub_def)
  have s6: "js_sub (Fin (1031 / 2)) (Fin (5804014019773727 / 1125899906842624)) = Fin (2244521046709371 / 4398046511104)"
    using fl_eqI[of "8" "574597387957598945 / 1125899906842624" "8978084186837484"] by (simp add: pow2_def js_sub_def)
  have s7: "js_mul (Fin (5804014019773727 / 1125899906842624)) (Fin 100) = Fin (1031 / 2)"
    using fl_eqI[of "9" "145100350494343175 / 281474976710656" "4534385952948224"] by (simp add: pow2_def)
  have s8: "Math_round (Fin (1031 / 2)) = Fin 516"
    using Math_round_eqI[of "516" "1031 / 2"] by simp
  have s9: "js_div (Fin 516) (Fin 100) = Fin (1452410879826985 / 281474976710656)"
    using fl_eqI[of "2" "129 / 25" "5809643519307940"] by (simp add: pow2_def)
  have s10: "js_mul (Fin (8357780188474167 / 9007199254740992)) (Fin 100) = Fin (6529515772245443 / 70368744177664)"
    using fl_eqI[of "6" "208944504711854175 / 2251799813685248" "6529515772245443"] by (simp add: pow2_def)
  have s11: "Math_round (Fin (6529515772245443 / 70368744177664)) = Fin 93"
    using Math_round_eqI[of "93" "6529515772245443 / 70368744177664"] by simp
  have s12: "js_div (Fin 93) (Fin 100) = Fin (8376695306909123 / 9007199254740992)"
    using fl_eqI[of "(- 1)" "93 / 100" "8376695306909123"] by (simp add: pow2_def)
  have s13: "js_mul (Fin (594911437026807 / 140737488355328)) (Fin 100) = Fin (464774560177193 / 1099511627776)"
    using fl_tieI[of "8" "14872785925670175 / 35184372088832" "7436392962835088"] by (simp add: pow2_def)
  have s14: "Math_round (Fin (464774560177193 / 1099511627776)) = Fin 423"
    using Math_round_eqI[of "423" "464774560177193 / 1099511627776"] by simp
  have s15: "js_div (Fin 423) (Fin 100) = Fin (1190639151486075 / 281474976710656)"
    using fl_eqI[of "2" "423 / 100" "4762556605944300"] by (simp add: pow2_def)
  have s16: "js_mul (Fin (2244521046709371 / 4398046511104)) (Fin 100) = Fin (102069 / 2)"
    using fl_eqI[of "15" "56113026167734275 / 1099511627776" "7014128270966784"] by (simp add: pow2_def)
  have s17: "Math_round (Fin (102069 / 2)) = Fin 51035"
    using Math_round_eqI[of "51035" "102069 / 2"] by simp
  have s18: "js_div (Fin 51035) (Fin 100) = Fin (4489086073883853 / 8796093022208)"
    using fl_eqI[of "8" "10207 / 20" "8978172147767706"] by (simp add: pow2_def)
  show ?thesis
    by (simp add: calculateCommission_def Let_def js_le_def js_gt_def s1 s2 s3 s4 s5 s6 s7 s8 s9 s10 s11 s12 s13 s14 s15 s16 s17 s18
        del: js_mul.simps js_div.simps js_add.simps Math_round.simps)
qed

lemma validateCalculations_515_50:
  "validateCalculations (Fin (1031 / 2))
       \<lparr> commissionAmount = Fin (1452410879826985 / 281474976710656), gstAmount = Fin (8376695306909123 / 9007199254740992), netIncome = Fin (1190639151486075 / 281474976710656), returnAmount = Fin (4489086073883853 / 8796093022208) \<rparr>"
proof -
  have s1: "fl (1 / 100) = Fin (5764607523034235 / 576460752303423488)"
    using fl_eqI[of "(- 7)" "1 / 100" "5764607523034235"] by (simp add: pow2_def)
  have s2: "js_add (Fin (1452410879826985 / 281474976710656)) (Fin (4489086073883853 / 8796093022208)) = Fin (2267236956939223 / 4398046511104)"
    using fl_eqI[of "9" "145103165244110281 / 281474976710656" "4534473913878446"] by (simp add: pow2_def)
  have s3: "js_sub (Fin (2267236956939223 / 4398046511104)) (Fin (1031 / 2)) = Fin (43980465111 / 4398046511104)"
    using fl_eqI[of "(- 7)" "43980465111 / 4398046511104" "5764607523028992"] by (simp add: pow2_def js_sub_def)
  have s4: "js_sub (Fin (1452410879826985 / 281474976710656)) (Fin (8376695306909123 / 9007199254740992)) = Fin (1190639151486075 / 281474976710656)"
    using fl_eqI[of "2" "38100452847554397 / 9007199254740992" "4762556605944300"] by (simp add: pow2_def js_sub_def)
  have s5: "js_sub (Fin (1190639151486075 / 281474976710656)) (Fin (1190639151486075 / 281474976710656)) = Fin 0"
    by (simp add: fl_zero js_sub_def)
  show ?thesis
    by (simp add: validateCalculations_def Let_def s1 s2 s3 s4 s5
        del: js_mul.simps js_div.simps js_add.simps Math_round.simps)
qed

text \<open>
  At the rate of 18 percent that the validator assumes, the two do not agree either: for
  the total 515.50 at 1 percent the commission 5.16 and the return amount 510.35 pass the
  check of the create, where their sum less the total is computed just under 0.01, and
  fail the validator, where the return amount less the total minus the commission is
  computed just over it.
\<close>

lemma created_at_18_percent_fails_validation:
  "createTransaction
     \<lparr> GST_RATE = Fin 18, DEFAULT_COMMISSION_PERCENT = Fin 1,
       clock = \<lparr> getFullYear = 2024, getMonth = 5, getDate = 10 \<rparr> \<rparr>
     \<lparr> req_date = None, req_totalReceived = JsonNumber (Fin (1031 / 2)), req_commissionPercent = Some (Fin 1),
       req_paymentMode = None, req_remarks = None, req_user = 7 \<rparr>
     \<lparr> transactions = [], invoiceNumbers = [], filingLocks = [], auditLogs = [], nextId = 0 \<rparr>
   = (Inr \<lparr> commissionAmount = fl (129 / 25), gstAmount = fl (93 / 100), netIncome = fl (423 / 100),
              returnAmount = fl (10207 / 20),
              tid = 0, date = \<lparr> getFullYear = 2024, getMonth = 5, getDate = 10 \<rparr>,
              totalReceived = Fin (1031 / 2), commissionPercent = Fin 1, paymentMode = ''QR'',
              createdBy = 7, remarks = [], invoiceNumber = Some ''INV-FY24-00001'',
              financialYear = Some ''FY24'' \<rparr>,
      \<lparr> transactions =
          [\<lparr> commissionAmount = fl (129 / 25), gstAmount = fl (93 / 100), netIncome = fl (423 / 100),
             returnAmount = fl (10207 / 20),
             tid = 0, date = \<lparr> getFullYear = 2024, getMonth = 5, getDate = 10 \<rparr>,
             totalReceived = Fin (1031 / 2), commissionPercent = Fin 1, paymentMode = ''QR'',
             createdBy = 7, remarks = [], invoiceNumber = Some ''INV-FY24-00001'',
             financialYear = Some ''FY24'' \<rparr>],
        invoiceNumbers =
          [\<lparr> inv_financialYear = ''FY24'', lastSequenceNumber = 1, inv_prefix = ''INV'' \<rparr>],
        filingLocks = [],
        auditLogs = [\<lparr> action = TRANSACTION_CREATED, performedBy = 7, entityId = Some 0,
                       status = SUCCESS \<rparr>],
        nextId = 1 \<rparr>)
   \<and> validateGSTCompliance
         [\<lparr> commissionAmount = fl (129 / 25), gstAmount = fl (93 / 100), netIncome = fl (423 / 100),
            returnAmount = fl (10207 / 20),
            tid = 0, date = \<lparr> getFullYear = 2024, getMonth = 5, getDate = 10 \<rparr>,
            totalReceived = Fin (1031 / 2), commissionPercent = Fin 1, paymentMode = ''QR'',
            createdBy = 7, remarks = [], invoiceNumber = Some ''INV-FY24-00001'',
            financialYear = Some ''FY24'' \<rparr>]
     = \<lparr> isValid = False,
         errors = [\<lparr> transactionIndex = 0, transactionId = 0, field = ''returnAmount'' \<rparr>],
         warnings = [], totalTransactions = 1, validTransactions = 0,
         errorCount = 1, warningCount = 0 \<rparr>"
proof (rule conjI)
  have c1: "fl (129 / 25) = Fin (1452410879826985 / 281474976710656)"
    using fl_eqI[of "2" "129 / 25" "5809643519307940"] by (simp add: pow2_def)
  have c2: "fl (93 / 100) = Fin (8376695306909123 / 9007199254740992)"
    using fl_eqI[of "(- 1)" "93 / 100" "8376695306909123"] by (simp add: pow2_def)
  have c3: "fl (423 / 100) = Fin (1190639151486075 / 281474976710656)"
    using fl_eqI[of "2" "423 / 100" "4762556605944300"] by (simp add: pow2_def)
  have c4: "fl (10207 / 20) = Fin (4489086073883853 / 8796093022208)"
    using fl_eqI[of "8" "10207 / 20" "8978172147767706"] by (simp add: pow2_def)
  show "createTransaction
     \<lparr> GST_RATE = Fin 18, DEFAULT_COMMISSION_PERCENT = Fin 1,
       clock = \<lparr> getFullYear = 2024, getMonth = 5, getDate = 10 \<rparr> \<rparr>
     \<lparr> req_date = None, req_totalReceived = JsonNumber (Fin (1031 / 2)), req_commissionPercent = Some (Fin 1),
       req_paymentMode = None, req_remarks = None, req_user = 7 \<rparr>
     \<lparr> transactions = [], invoiceNumbers = [], filingLocks = [], auditLogs = [], nextId = 0 \<rparr>
   = (Inr \<lparr> commissionAmount = fl (129 / 25), gstAmount = fl (93 / 100), netIncome = fl (423 / 100),
              returnAmount = fl (10207 / 20),
              tid = 0, date = \<lparr> getFullYear = 2024, getMonth = 5, getDate = 10 \<rparr>,
              totalReceived = Fin (1031 / 2), commissionPercent = Fin 1, paymentMode = ''QR'',
              createdBy = 7, remarks = [], invoiceNumber = Some ''INV-FY24-00001'',
              financialYear = Some ''FY24'' \<rparr>,
      \<lparr> transactions =
          [\<lparr> commissionAmount = fl (129 / 25), gstAmount = fl (93 / 100), netIncome = fl (423 / 100),
             returnAmount = fl (10207 / 20),
             tid = 0, date = \<lparr> getFullYear = 2024, getMonth = 5, getDate = 10 \<rparr>,
             totalReceived = Fin (1031 / 2), commissionPercent = Fin 1, paymentMode = ''QR'',
             createdBy = 7, remarks = [], invoiceNumber = Some ''INV-FY24-00001'',
             financialYear = Some ''FY24'' \<rparr>],
        invoiceNumbers =
          [\<lparr> inv_financialYear = ''FY24'', lastSequenceNumber = 1, inv_prefix = ''INV'' \<rparr>],
        filingLocks = [],
        auditLogs = [\<lparr> action = TRANSACTION_CREATED, performedBy = 7, entityId = Some 0,
                       status = SUCCESS \<rparr>],
        nextId = 1 \<rparr>)"
    unfolding c1 c2 c3 c4
    by (simp add: createTransaction_def Let_def commissionPercentValue_def gstRate_of_def
        truthy_def generateInvoiceNumber_first getFinancialYear_2024_06 match_FY_FY24 match_INV_first
        validateTransactionForGST_def js_le_def strict_eq_def Transaction_create_def
        amounts_valid_def numbering_valid_def fl_cent trim_def
        calculateCommission_515_50 validateCalculations_515_50)
next
  have s1: "fl (9 / 50) = Fin (3242591731706757 / 18014398509481984)"
    using fl_eqI[of "(- 3)" "9 / 50" "6485183463413514"] by (simp add: pow2_def)
  have s2: "fl (1 / 100) = Fin (5764607523034235 / 576460752303423488)"
    using fl_eqI[of "(- 7)" "1 / 100" "5764607523034235"] by (simp add: pow2_def)
  have s3: "js_mul (Fin (1452410879826985 / 281474976710656)) (Fin (3242591731706757 / 18014398509481984)) = Fin (8365886667803433 / 9007199254740992)"
    using fl_eqI[of "(- 1)" "4709575509967917827854915437645 / 5070602400912917605986812821504" "8365886667803433"] by (simp add: pow2_def)
  have s4: "js_sub (Fin (8376695306909123 / 9007199254740992)) (Fin (8365886667803433 / 9007199254740992)) = Fin (5404319552845 / 4503599627370496)"
    using fl_eqI[of "(- 10)" "5404319552845 / 4503599627370496" "5534023222113280"] by (simp add: pow2_def js_sub_def)
  have s5: "js_sub (Fin (1031 / 2)) (Fin (1452410879826985 / 281474976710656)) = Fin (8977996225907261 / 17592186044416)"
    using fl_eqI[of "8" "143647939614516183 / 281474976710656" "8977996225907261"] by (simp add: pow2_def js_sub_def)
  have s6: "js_sub (Fin (1452410879826985 / 281474976710656)) (Fin (8376695306909123 / 9007199254740992)) = Fin (1190639151486075 / 281474976710656)"
    using fl_eqI[of "2" "38100452847554397 / 9007199254740992" "4762556605944300"] by (simp add: pow2_def js_sub_def)
  have s7: "js_sub (Fin (1190639151486075 / 281474976710656)) (Fin (1190639151486075 / 281474976710656)) = Fin 0"
    by (simp add: fl_zero js_sub_def)
  have s8: "js_sub (Fin (4489086073883853 / 8796093022208)) (Fin (8977996225907261 / 17592186044416)) = Fin (175921860445 / 17592186044416)"
    using fl_eqI[of "(- 7)" "175921860445 / 17592186044416" "5764607523061760"] by (simp add: pow2_def js_sub_def)
  have c1: "fl (129 / 25) = Fin (1452410879826985 / 281474976710656)"
    using fl_eqI[of "2" "129 / 25" "5809643519307940"] by (simp add: pow2_def)
  have c2: "fl (93 / 100) = Fin (8376695306909123 / 9007199254740992)"
    using fl_eqI[of "(- 1)" "93 / 100" "8376695306909123"] by (simp add: pow2_def)
  have c3: "fl (423 / 100) = Fin (1190639151486075 / 281474976710656)"
    using fl_eqI[of "2" "423 / 100" "4762556605944300"] by (simp add: pow2_def)
  have c4: "fl (10207 / 20) = Fin (4489086073883853 / 8796093022208)"
    using fl_eqI[of "8" "10207 / 20" "8978172147767706"] by (simp add: pow2_def)
  show "validateGSTCompliance
         [\<lparr> commissionAmount = fl (129 / 25), gstAmount = fl (93 / 100), netIncome = fl (423 / 100),
            returnAmount = fl (10207 / 20),
            tid = 0, date = \<lparr> getFullYear = 2024, getMonth = 5, getDate = 10 \<rparr>,
            totalReceived = Fin (1031 / 2), commissionPercent = Fin 1, paymentMode = ''QR'',
            createdBy = 7, remarks = [], invoiceNumber = Some ''INV-FY24-00001'',
            financialYear = Some ''FY24'' \<rparr>]
     = \<lparr> isValid = False,
         errors = [\<lparr> transactionIndex = 0, transactionId = 0, field = ''returnAmount'' \<rparr>],
         warnings = [], totalTransactions = 1, validTransactions = 0,
         errorCount = 1, warningCount = 0 \<rparr>"
    unfolding c1 c2 c3 c4
    by (simp add: validateGSTCompliance_def checkTransaction_def Let_def truthy_def js_le_def
        js_gt_def s1 s2 s3 s4 s5 s6 s7 s8
        del: js_mul.simps js_div.simps js_add.simps Math_round.simps)
qed

end
